theory Spec2Isabelle
  imports Main
begin

section \<open>JavaScript string primitives used by the server\<close>

text \<open>
  Strings are lists of characters. \<open>replaceAll pat rep s\<close> is
  \<^verbatim>\<open>s.replace(/pat/g, rep)\<close> for a literal, non-empty pattern: the
  matches are found from left to right and do not overlap.
\<close>

fun replaceAll :: "string \<Rightarrow> string \<Rightarrow> string \<Rightarrow> string" where
  "replaceAll pat rep [] = []"
| "replaceAll pat rep (c # cs) =
     (if pat \<noteq> [] \<and> take (length pat) (c # cs) = pat
      then rep @ replaceAll pat rep (drop (length pat - 1) cs)
      else c # replaceAll pat rep cs)"

text \<open>\<^verbatim>\<open>s.includes(pat)\<close>.\<close>

fun strIncludes :: "string \<Rightarrow> string \<Rightarrow> bool" where
  "strIncludes [] pat = (pat = [])"
| "strIncludes (c # cs) pat = (take (length pat) (c # cs) = pat \<or> strIncludes cs pat)"

text \<open>\<^verbatim>\<open>s.startsWith(pat)\<close>.\<close>

definition startsWith :: "string \<Rightarrow> string \<Rightarrow> bool" where
  "startsWith s pat = (take (length pat) s = pat)"

section \<open>Tool names and property names (tools/utils.ts)\<close>

definition actorNameToToolName :: "string \<Rightarrow> string" where
  "actorNameToToolName actorName =
     take 64 (replaceAll ''.'' ''-dot-'' (replaceAll ''/'' ''-slash-'' actorName))"

text \<open>
  The key rewriting done by \<open>encodeDotPropertyNames\<close> and
  \<open>decodeDotPropertyNames\<close> on every key of the object.
\<close>

definition encodeDotKey :: "string \<Rightarrow> string" where
  "encodeDotKey key = replaceAll ''.'' ''-dot-'' key"

definition decodeDotKey :: "string \<Rightarrow> string" where
  "decodeDotKey key = replaceAll ''-dot-'' ''.'' key"

text \<open>
  A name that starts with the placeholder \<open>-dot-\<close>, or with \<open>-dot\<close> and a dot.
\<close>

definition placeholderPrefix :: "string \<Rightarrow> bool" where
  "placeholderPrefix s = (startsWith s ''-dot-'' \<or> startsWith s ''-dot.'')"

text \<open>
  A JavaScript object with string keys is an association list in insertion order;
  \<open>obj[k] = v\<close> overwrites the value of an existing key in place and appends a
  new key. (JavaScript enumerates keys that are array indices first; no property below
  depends on the order of the keys.)
\<close>

type_synonym 'v obj = "(string \<times> 'v) list"

fun objSet :: "'v obj \<Rightarrow> string \<Rightarrow> 'v \<Rightarrow> 'v obj" where
  "objSet [] k v = [(k, v)]"
| "objSet ((k', v') # kvs) k v =
     (if k' = k then (k, v) # kvs else (k', v') # objSet kvs k v)"

definition encodeDotPropertyNames :: "'v obj \<Rightarrow> 'v obj" where
  "encodeDotPropertyNames properties =
     fold (\<lambda>(key, val) encodedProperties. objSet encodedProperties (encodeDotKey key) val)
       properties []"

definition decodeDotPropertyNames :: "'v obj \<Rightarrow> 'v obj" where
  "decodeDotPropertyNames properties =
     fold (\<lambda>(key, val) decodedProperties. objSet decodedProperties (decodeDotKey key) val)
       properties []"

section \<open>Tool entries (types.ts, const.ts, tools/index.ts)\<close>

datatype ToolType = Internal | Actor | ActorMcp

text \<open>
  A \<open>ToolEntry\<close> is the type tag and the tool. Of the tool the model keeps the name and
  the fields the three variants add: \<open>actorFullName\<close> and \<open>memoryMbytes\<close> of an Actor
  tool, \<open>originToolName\<close>, \<open>actorId\<close> and \<open>serverUrl\<close> of a proxied tool.
\<close>

record ToolEntry =
  entryType :: ToolType
  toolName :: string
  actorFullName :: "string option"
  memoryMbytes :: "nat option"
  originToolName :: "string option"
  actorId :: "string option"
  serverUrl :: "string option"

definition internalTool :: "string \<Rightarrow> ToolEntry" where
  "internalTool n = \<lparr>entryType = Internal, toolName = n, actorFullName = None,
     memoryMbytes = None, originToolName = None, actorId = None, serverUrl = None\<rparr>"

text \<open>The internal tools, named by the \<open>HelperTools\<close> enum.\<close>

definition addTool :: ToolEntry where "addTool = internalTool ''add-actor''"
definition callActor :: ToolEntry where
  "callActor = (internalTool ''call-actor'')\<lparr>actorFullName := Some ''call-actor''\<rparr>"
definition getActorOutput :: ToolEntry where "getActorOutput = internalTool ''get-actor-output''"
definition fetchActorDetailsTool :: ToolEntry where
  "fetchActorDetailsTool = internalTool ''fetch-actor-details''"
definition searchActors :: ToolEntry where "searchActors = internalTool ''search-actors''"
definition searchApifyDocsTool :: ToolEntry where
  "searchApifyDocsTool = internalTool ''search-apify-docs''"
definition fetchApifyDocsTool :: ToolEntry where
  "fetchApifyDocsTool = internalTool ''fetch-apify-docs''"
definition getActorRun :: ToolEntry where "getActorRun = internalTool ''get-actor-run''"
definition getUserRunsList :: ToolEntry where "getUserRunsList = internalTool ''get-actor-run-list''"
definition getActorRunLog :: ToolEntry where "getActorRunLog = internalTool ''get-actor-log''"
definition getDataset :: ToolEntry where "getDataset = internalTool ''get-dataset''"
definition getDatasetItems :: ToolEntry where "getDatasetItems = internalTool ''get-dataset-items''"
definition getDatasetSchema :: ToolEntry where
  "getDatasetSchema = internalTool ''get-dataset-schema''"
definition getKeyValueStore :: ToolEntry where
  "getKeyValueStore = internalTool ''get-key-value-store''"
definition getKeyValueStoreKeys :: ToolEntry where
  "getKeyValueStoreKeys = internalTool ''get-key-value-store-keys''"
definition getKeyValueStoreRecord :: ToolEntry where
  "getKeyValueStoreRecord = internalTool ''get-key-value-store-record''"
definition getUserDatasetsList :: ToolEntry where
  "getUserDatasetsList = internalTool ''get-dataset-list''"
definition getUserKeyValueStoresList :: ToolEntry where
  "getUserKeyValueStoresList = internalTool ''get-key-value-store-list''"

text \<open>
  \<open>toolCategories\<close> is the object of tools/index.ts, with its five keys in order. It is a
  plain object, so \<open>toolCategories[selector]\<close> finds, besides its own keys, the members
  every object inherits from \<open>Object.prototype\<close>: functions and, under \<open>__proto__\<close>, the
  prototype itself. They are truthy and cannot be spread into an argument list.
\<close>

definition toolCategoriesTable :: "(string \<times> ToolEntry list) list" where
  "toolCategoriesTable =
     [(''experimental'', [addTool]),
      (''actors'', [fetchActorDetailsTool, searchActors, callActor]),
      (''docs'', [searchApifyDocsTool, fetchApifyDocsTool]),
      (''runs'', [getActorRun, getUserRunsList, getActorRunLog]),
      (''storage'', [getDataset, getDatasetItems, getDatasetSchema, getActorOutput,
         getKeyValueStore, getKeyValueStoreKeys, getKeyValueStoreRecord,
         getUserDatasetsList, getUserKeyValueStoresList])]"

definition objectPrototypeKeys :: "string list" where
  "objectPrototypeKeys =
     [''constructor'', ''__defineGetter__'', ''__defineSetter__'', ''hasOwnProperty'',
      ''__lookupGetter__'', ''__lookupSetter__'', ''isPrototypeOf'', ''propertyIsEnumerable'',
      ''toString'', ''valueOf'', ''__proto__'', ''toLocaleString'']"

datatype CategoryLookup = CategoryTools "ToolEntry list" | InheritedMember | Undefined

definition toolCategories :: "string \<Rightarrow> CategoryLookup" where
  "toolCategories selector =
     (case map_of toolCategoriesTable selector of
        Some categoryTools \<Rightarrow> CategoryTools categoryTools
      | None \<Rightarrow> if selector \<in> set objectPrototypeKeys then InheritedMember else Undefined)"

definition toolCategoriesEnabledByDefault :: "string list" where
  "toolCategoriesEnabledByDefault = [''actors'', ''docs'']"

text \<open>
  The parameter of \<open>getExpectedToolsByCategories\<close> has the type of the keys of the
  table, and its callers pass the keys of the table and the default categories.
\<close>

definition getExpectedToolsByCategories :: "string list \<Rightarrow> ToolEntry list" where
  "getExpectedToolsByCategories categories =
     concat (map (\<lambda>category. case map_of toolCategoriesTable category of
                                  Some ts \<Rightarrow> ts | None \<Rightarrow> []) categories)"

definition defaultsActors :: "string list" where
  "defaultsActors = [''apify/rag-web-browser'']"

definition ACTOR_MAX_MEMORY_MBYTES :: nat where
  "ACTOR_MAX_MEMORY_MBYTES = 4096"

section \<open>Actors as tools (tools/actor.ts)\<close>

text \<open>
  Of a pruned Actor definition the tool entry uses the full name and the default memory.
  Compiling the input schema is the validator library's work and may throw; whether it
  does is the parameter \<open>ajvCompiles\<close>.
\<close>

record ActorDefinitionPruned =
  defActorFullName :: string
  defMemoryMbytes :: "nat option"

record ActorInfo =
  actorDefinitionPruned :: "ActorDefinitionPruned option"
  webServerMcpPath :: "string option"

definition actorToolEntry :: "ActorDefinitionPruned \<Rightarrow> ToolEntry" where
  "actorToolEntry d =
     (let memoryMbytes = (case defMemoryMbytes d of
                            None \<Rightarrow> ACTOR_MAX_MEMORY_MBYTES
                          | Some m \<Rightarrow> if m = 0 then ACTOR_MAX_MEMORY_MBYTES else m)
      in \<lparr>entryType = Actor,
          toolName = actorNameToToolName (defActorFullName d),
          actorFullName = Some (defActorFullName d),
          memoryMbytes = Some (if memoryMbytes > ACTOR_MAX_MEMORY_MBYTES
                               then ACTOR_MAX_MEMORY_MBYTES else memoryMbytes),
          originToolName = None, actorId = None, serverUrl = None\<rparr>)"

fun getNormalActorsAsTools ::
  "(ActorDefinitionPruned \<Rightarrow> bool) \<Rightarrow> ActorInfo list \<Rightarrow> ToolEntry list" where
  "getNormalActorsAsTools ajvCompiles [] = []"
| "getNormalActorsAsTools ajvCompiles (actorInfo # actorsInfo) =
     (case actorDefinitionPruned actorInfo of
        None \<Rightarrow> getNormalActorsAsTools ajvCompiles actorsInfo
      | Some d \<Rightarrow>
          if ajvCompiles d
          then actorToolEntry d # getNormalActorsAsTools ajvCompiles actorsInfo
          else getNormalActorsAsTools ajvCompiles actorsInfo)"

section \<open>The tool registry (mcp/server.ts)\<close>

text \<open>
  The registry is a JavaScript \<open>Map\<close> from tool name to entry: an association list in
  insertion order in which \<open>set\<close> overwrites an existing key in place. The registered
  tools-changed handler is a callback; the state records whether one is registered and
  the argument of each of its calls.
\<close>

record ActorsMcpServer =
  tools :: "ToolEntry obj"
  toolsChangedHandler :: bool
  handlerCalls :: "string option list list"

definition mapHas :: "'v obj \<Rightarrow> string \<Rightarrow> bool" where
  "mapHas m k = (k \<in> set (map fst m))"

definition mapDelete :: "'v obj \<Rightarrow> string \<Rightarrow> 'v obj" where
  "mapDelete m k = filter (\<lambda>kv. fst kv \<noteq> k) m"

text \<open>\<^verbatim>\<open>Array.from(new Set(xs))\<close>: the first occurrence of each element is kept.\<close>

fun uniqueFirst :: "'a list \<Rightarrow> 'a list" where
  "uniqueFirst [] = []"
| "uniqueFirst (x # xs) = x # uniqueFirst (filter (\<lambda>y. y \<noteq> x) xs)"

definition listToolNames :: "ActorsMcpServer \<Rightarrow> string list" where
  "listToolNames s = map fst (tools s)"

definition listInternalToolNames :: "ActorsMcpServer \<Rightarrow> string list" where
  "listInternalToolNames s =
     map toolName (filter (\<lambda>tool. entryType tool = Internal) (map snd (tools s)))"

text \<open>A field the entry does not have reads as \<open>undefined\<close>, here \<open>None\<close>.\<close>

definition listActorToolNames :: "ActorsMcpServer \<Rightarrow> string option list" where
  "listActorToolNames s =
     map actorFullName (filter (\<lambda>tool. entryType tool = Actor) (map snd (tools s)))"

definition listActorMcpServerToolIds :: "ActorsMcpServer \<Rightarrow> string option list" where
  "listActorMcpServerToolIds s =
     uniqueFirst (map actorId (filter (\<lambda>tool. entryType tool = ActorMcp) (map snd (tools s))))"

definition listAllToolNames :: "ActorsMcpServer \<Rightarrow> string option list" where
  "listAllToolNames s =
     map Some (listInternalToolNames s) @ listActorToolNames s @ listActorMcpServerToolIds s"

definition notifyToolsChangedHandler :: "ActorsMcpServer \<Rightarrow> ActorsMcpServer" where
  "notifyToolsChangedHandler s =
     (if \<not> toolsChangedHandler s then s
      else s\<lparr>handlerCalls := handlerCalls s @ [listAllToolNames s]\<rparr>)"

definition removeToolByName :: "string \<Rightarrow> ActorsMcpServer \<Rightarrow> bool \<times> ActorsMcpServer" where
  "removeToolByName tName s =
     (if mapHas (tools s) tName
      then (True, s\<lparr>tools := mapDelete (tools s) tName\<rparr>)
      else (False, s))"

fun removeLoop ::
  "string list \<Rightarrow> string list \<Rightarrow> ActorsMcpServer \<Rightarrow> string list \<times> ActorsMcpServer" where
  "removeLoop [] removedTools s = (removedTools, s)"
| "removeLoop (tName # toolNames) removedTools s =
     (case removeToolByName tName s of
        (True, s') \<Rightarrow> removeLoop toolNames (removedTools @ [tName]) s'
      | (False, s') \<Rightarrow> removeLoop toolNames removedTools s')"

definition removeToolsByName ::
  "string list \<Rightarrow> bool \<Rightarrow> ActorsMcpServer \<Rightarrow> string list \<times> ActorsMcpServer" where
  "removeToolsByName toolNames shouldNotifyToolsChangedHandler s =
     (case removeLoop toolNames [] s of
        (removedTools, s') \<Rightarrow>
          if length removedTools > 0 \<and> shouldNotifyToolsChangedHandler
          then (removedTools, notifyToolsChangedHandler s')
          else (removedTools, s'))"

text \<open>\<open>upsertTools\<close> returns its argument \<open>tools\<close>; the model returns the new state.\<close>

definition upsertTools :: "ToolEntry list \<Rightarrow> bool \<Rightarrow> ActorsMcpServer \<Rightarrow> ActorsMcpServer" where
  "upsertTools ts shouldNotifyToolsChangedHandler s =
     (let s' = s\<lparr>tools := fold (\<lambda>wrap m. objSet m (toolName wrap) wrap) ts (tools s)\<rparr>
      in if shouldNotifyToolsChangedHandler then notifyToolsChangedHandler s' else s')"

section \<open>Loading tools from the input (utils/tools-loader.ts)\<close>

text \<open>
  The fields \<open>actors\<close> and \<open>tools\<close> of \<open>Input\<close> are absent, one string or an array of
  strings; \<open>enableAddingActors\<close> is absent, a boolean or a string.
\<close>

datatype StringOrList = Str string | Lst "string list"

datatype BoolOrString = JBool bool | JString string

record Input =
  inputActors :: "StringOrList option"
  enableAddingActors :: "BoolOrString option"
  inputTools :: "StringOrList option"

text \<open>\<^verbatim>\<open>s.trim()\<close>, on the ASCII white space: tab, line feed, vertical tab,
  form feed, carriage return and space.\<close>

definition isWhiteSpace :: "char \<Rightarrow> bool" where
  "isWhiteSpace c = (c \<in> set [CHR 0x09, CHR 0x0A, CHR 0x0B, CHR 0x0C, CHR 0x0D, CHR 0x20])"

definition trim :: "string \<Rightarrow> string" where
  "trim s = rev (dropWhile isWhiteSpace (rev (dropWhile isWhiteSpace s)))"

definition normalizeSelectors :: "StringOrList option \<Rightarrow> string list option" where
  "normalizeSelectors v =
     (case v of
        None \<Rightarrow> None
      | Some (Lst xs) \<Rightarrow> Some (filter (\<lambda>s. s \<noteq> []) (map trim xs))
      | Some (Str x) \<Rightarrow> Some (filter (\<lambda>s. s \<noteq> []) (map trim [x])))"

text \<open>
  \<open>getInternalToolByNameMap\<close>: the \<open>Map\<close> built from the tools of all categories, in
  which a later entry of the same name replaces an earlier one.
\<close>

definition getInternalToolByNameMap :: "string \<Rightarrow> ToolEntry option" where
  "getInternalToolByNameMap =
     map_of (rev (map (\<lambda>entry. (toolName entry, entry))
                    (getExpectedToolsByCategories (map fst toolCategoriesTable))))"

text \<open>
  One round of the loop that partitions the selectors; the state is
  \<open>(internalSelections, actorSelectorsFromTools)\<close>. In
  \<open>internalSelections.push(...categoryTools)\<close> the spread of an inherited member throws
  a \<open>TypeError\<close>, which the loader does not catch.
\<close>

datatype JsError = TypeError

definition partitionSelector ::
  "string \<Rightarrow> ToolEntry list \<times> string list \<Rightarrow> JsError + ToolEntry list \<times> string list" where
  "partitionSelector selector acc =
     (case acc of (internalSelections, actorSelectorsFromTools) \<Rightarrow>
        if selector = ''preview''
        then Inr (internalSelections @ [callActor], actorSelectorsFromTools)
        else (case toolCategories selector of
                CategoryTools categoryTools \<Rightarrow>
                  Inr (internalSelections @ categoryTools, actorSelectorsFromTools)
              | InheritedMember \<Rightarrow> Inl TypeError
              | Undefined \<Rightarrow>
                 (case getInternalToolByNameMap selector of
                    Some internalByName \<Rightarrow>
                      Inr (internalSelections @ [internalByName], actorSelectorsFromTools)
                  | None \<Rightarrow> Inr (internalSelections, actorSelectorsFromTools @ [selector]))))"

fun partitionLoop ::
  "string list \<Rightarrow> ToolEntry list \<times> string list \<Rightarrow> JsError + ToolEntry list \<times> string list" where
  "partitionLoop [] acc = Inr acc"
| "partitionLoop (selector # selectors) acc =
     (case partitionSelector selector acc of
        Inl e \<Rightarrow> Inl e
      | Inr acc' \<Rightarrow> partitionLoop selectors acc')"

definition partitionSelectors ::
  "string list option \<Rightarrow> JsError + ToolEntry list \<times> string list" where
  "partitionSelectors selectors =
     (case selectors of
        None \<Rightarrow> Inr ([], [])
      | Some sel \<Rightarrow> if length sel = 0 then Inr ([], []) else partitionLoop sel ([], []))"

definition actorsFromField :: "Input \<Rightarrow> string list option" where
  "actorsFromField input =
     (case inputActors input of
        None \<Rightarrow> None
      | Some (Lst xs) \<Rightarrow> Some xs
      | Some (Str x) \<Rightarrow> Some [x])"

definition addActorEnabled :: "Input \<Rightarrow> bool" where
  "addActorEnabled input = (enableAddingActors input = Some (JBool True))"

definition actorsExplicitlyEmpty :: "Input \<Rightarrow> bool" where
  "actorsExplicitlyEmpty input =
     (inputActors input = Some (Lst []) \<or> inputActors input = Some (Str []))"

text \<open>
  The loader is embedded in parts, each a block of the source that reads the result of
  the partition. \<open>actorNamesToLoad\<close> decides which Actors to load;
  \<open>internalSelection\<close> composes the internal tools of the result; \<open>invokesActor\<close> is the
  condition \<open>hasCallActor || hasActorTools || hasAddActorTool\<close>; \<open>loadToolsFromInput\<close>
  partitions the selectors, adds the Actor tools and \<open>get-actor-output\<close> and removes the
  duplicates. \<open>getActorsAsTools\<close> fetches the Actor definitions from the platform; what
  it returns for a list of names is the parameter of the loader.
\<close>

definition actorNamesToLoad :: "Input \<Rightarrow> string list \<Rightarrow> string list" where
  "actorNamesToLoad input actorSelectorsFromTools =
     (let selectors = normalizeSelectors (inputTools input);
          selectorsProvided = (selectors \<noteq> None)
      in case actorsFromField input of
           Some names \<Rightarrow> names
         | None \<Rightarrow>
            if length actorSelectorsFromTools > 0 then actorSelectorsFromTools
            else if \<not> selectorsProvided
                 then (if addActorEnabled input then [] else defaultsActors)
                 else [])"

text \<open>The final filter: an entry is kept when its name has not been seen before.\<close>

fun dedupeByName :: "string list \<Rightarrow> ToolEntry list \<Rightarrow> ToolEntry list" where
  "dedupeByName seen [] = []"
| "dedupeByName seen (entry # rest) =
     (if toolName entry \<in> set seen then dedupeByName seen rest
      else entry # dedupeByName (toolName entry # seen) rest)"

definition internalSelection :: "Input \<Rightarrow> ToolEntry list \<Rightarrow> ToolEntry list" where
  "internalSelection input internalSelections =
     (let selectors = normalizeSelectors (inputTools input);
          selectorsProvided = (selectors \<noteq> None);
          selectorsExplicitEmpty = (selectors = Some [])
      in if selectorsProvided then
           (if addActorEnabled input \<and> \<not> selectorsExplicitEmpty
                 \<and> \<not> actorsExplicitlyEmpty input
                 \<and> \<not> list_ex (\<lambda>e. toolName e = toolName addTool) internalSelections
            then internalSelections @ [addTool]
            else internalSelections)
         else if addActorEnabled input \<and> \<not> actorsExplicitlyEmpty input then [addTool]
         else if \<not> actorsExplicitlyEmpty input
              then getExpectedToolsByCategories toolCategoriesEnabledByDefault
              else [])"

definition invokesActor :: "ToolEntry list \<Rightarrow> bool" where
  "invokesActor result =
     (let hasCallActor = list_ex (\<lambda>entry. toolName entry = ''call-actor'') result;
          hasActorTools = list_ex (\<lambda>entry. entryType entry = Actor) result;
          hasAddActorTool = list_ex (\<lambda>entry. toolName entry = ''add-actor'') result
      in hasCallActor \<or> hasActorTools \<or> hasAddActorTool)"

definition composeResult ::
  "(string list \<Rightarrow> ToolEntry list) \<Rightarrow> ToolEntry list \<Rightarrow> string list \<Rightarrow> ToolEntry list" where
  "composeResult getActorsAsTools result1 names =
     (let result2 = (if length names > 0 then result1 @ getActorsAsTools names else result1);
          result3 = (if invokesActor result2 then result2 @ [getActorOutput] else result2)
      in dedupeByName [] result3)"

definition loadToolsFromInput ::
  "(string list \<Rightarrow> ToolEntry list) \<Rightarrow> Input \<Rightarrow> JsError + ToolEntry list" where
  "loadToolsFromInput getActorsAsTools input =
     (case partitionSelectors (normalizeSelectors (inputTools input)) of
        Inl e \<Rightarrow> Inl e
      | Inr (internalSelections, actorSelectorsFromTools) \<Rightarrow>
          Inr (composeResult getActorsAsTools
                 (internalSelection input internalSelections)
                 (actorNamesToLoad input actorSelectorsFromTools)))"

text \<open>
  A selector that is neither \<open>preview\<close>, a member of \<open>toolCategories\<close> nor the name of an
  internal tool is taken for an Actor name; a selector that names an inherited member
  makes the loader throw.
\<close>

definition isActorSelector :: "string \<Rightarrow> bool" where
  "isActorSelector s =
     (s \<noteq> ''preview'' \<and> toolCategories s = Undefined \<and> getInternalToolByNameMap s = None)"

definition isInheritedSelector :: "string \<Rightarrow> bool" where
  "isInheritedSelector s = (s \<noteq> ''preview'' \<and> toolCategories s = InheritedMember)"

section \<open>The cache with expiry (utils/ttl-lru.ts)\<close>










section \<open>Shortening the input schema (tools/utils.ts)\<close>

definition ACTOR_ENUM_MAX_LENGTH :: nat where
  "ACTOR_ENUM_MAX_LENGTH = 200"

definition ACTOR_MAX_DESCRIPTION_LENGTH :: nat where
  "ACTOR_MAX_DESCRIPTION_LENGTH = 500"

text \<open>
  Of a schema property the pass reads and writes the description, the enum and the
  enum of the items.
\<close>

record SchemaItems =
  itemsType :: "string option"
  itemsEnum :: "string list option"

record ISchemaProperties =
  propType :: string
  title :: string
  description :: string
  enumValues :: "string list option"
  items :: "SchemaItems option"

text \<open>
  The callback of \<open>enumList.filter\<close> adds the length of every value to \<open>charCount\<close>,
  kept or not, and keeps the value when the count is within the limit.
\<close>

fun shortenEnumFilter :: "nat \<Rightarrow> string list \<Rightarrow> string list" where
  "shortenEnumFilter charCount [] = []"
| "shortenEnumFilter charCount (enumValue # enumList) =
     (if charCount + length enumValue \<le> ACTOR_ENUM_MAX_LENGTH
      then enumValue # shortenEnumFilter (charCount + length enumValue) enumList
      else shortenEnumFilter (charCount + length enumValue) enumList)"

definition shortenEnum :: "string list \<Rightarrow> string list option" where
  "shortenEnum enumList =
     (let resultEnumList = shortenEnumFilter 0 enumList
      in if length resultEnumList > 0 then Some resultEnumList else None)"

definition shortenProperty :: "ISchemaProperties \<Rightarrow> ISchemaProperties" where
  "shortenProperty property =
     (let p1 = (if length (description property) > ACTOR_MAX_DESCRIPTION_LENGTH
                then property\<lparr>description :=
                       take ACTOR_MAX_DESCRIPTION_LENGTH (description property) @ ''...''\<rparr>
                else property);
          p2 = (case enumValues p1 of
                  Some e \<Rightarrow> if length e > 0 then p1\<lparr>enumValues := shortenEnum e\<rparr> else p1
                | None \<Rightarrow> p1)
      in case items p2 of
           Some it \<Rightarrow>
             (case itemsEnum it of
                Some e \<Rightarrow> if length e > 0
                          then p2\<lparr>items := Some (it\<lparr>itemsEnum := shortenEnum e\<rparr>)\<rparr> else p2
              | None \<Rightarrow> p2)
         | None \<Rightarrow> p2)"

definition shortenProperties :: "ISchemaProperties obj \<Rightarrow> ISchemaProperties obj" where
  "shortenProperties properties = map (\<lambda>(key, property). (key, shortenProperty property)) properties"

section \<open>Calling an Actor (tools/actor.ts)\<close>

text \<open>
  What the collaborators of a call do is a parameter of the model; what the call does
  to them is recorded as a list of effects, in the order of the source.
\<close>

datatype Thrown = ApifyApiError string | OtherError string

text \<open>\<^verbatim>\<open>`${error}`\<close>: the name of the error and its message.\<close>

fun errorToString :: "Thrown \<Rightarrow> string" where
  "errorToString (ApifyApiError message) = ''ApifyApiError: '' @ message"
| "errorToString (OtherError rendering) = rendering"

datatype Effect =
    LogError string
  | LogInfo string
  | SendLoggingMessage string string
  | ActorStart string "nat option"
  | TrackerStartActorRunUpdates string
  | TrackerStop
  | RunWaitForFinish string
  | RunAbort string bool
  | InternalCall string
  | ProxyConnect string
  | ProxyCallTool string
  | ProxyClose

text \<open>
  The cancellation signal of a call fires at most once. It is observed through the
  listener that \<open>callActorGetDataset\<close> adds after the run has started: a listener added to
  a signal that has already fired is never called. So the model distinguishes a signal
  that does not fire before the wait for the run settles, one that has fired before the
  listener is added (while the start request was pending), and one that fires while the
  call waits for the run.
\<close>

datatype SignalTiming = NotAborted | AbortedBeforeListening | AbortedWhileWaiting

record CallActorGetDatasetResult =
  runId :: string
  datasetId :: string
  itemCount :: nat

text \<open>
  The platform during one run: the outcome of \<open>start\<close> (the id of the run), of the
  \<open>abort\<close> request, of \<open>waitForFinish\<close> (the default dataset of the completed run) and of
  reading the dataset and the build of the Actor; and whether \<open>waitForFinish\<close> settles
  while the abort request of the listener is pending, in which case it wins the race.
\<close>

record ActorRunWorld =
  startOutcome :: "Thrown + string"
  abortOutcome :: "Thrown option"
  waitOutcome :: "Thrown + string"
  waitSettlesDuringAbort :: bool
  outputOutcome :: "Thrown + nat"

datatype RaceResult = CLIENT_ABORT | Settled "Thrown + string"

text \<open>
  The race of \<open>waitForFinish\<close> against the abort promise, which exists when a signal is
  passed. The listener aborts the run with \<open>gracefully: false\<close>, logs a failure of the
  abort and resolves the abort promise.
\<close>

definition raceAbort ::
  "ActorRunWorld \<Rightarrow> string \<Rightarrow> SignalTiming option \<Rightarrow> Effect list \<times> RaceResult" where
  "raceAbort w actorRunId abortSignal =
     (case abortSignal of
        Some AbortedWhileWaiting \<Rightarrow>
          ([RunWaitForFinish actorRunId, RunAbort actorRunId False]
             @ (case abortOutcome w of
                  Some e \<Rightarrow> [LogError ''Error aborting Actor run'']
                | None \<Rightarrow> []),
           if waitSettlesDuringAbort w then Settled (waitOutcome w) else CLIENT_ABORT)
      | _ \<Rightarrow> ([RunWaitForFinish actorRunId], Settled (waitOutcome w)))"

definition callActorFailed ::
  "Effect list \<Rightarrow> Thrown \<Rightarrow> Effect list \<times> (Thrown + CallActorGetDatasetResult option)" where
  "callActorFailed effects e =
     (effects @ [LogError ''Error calling Actor''],
      Inl (OtherError (''Error: Error calling Actor: '' @ errorToString e)))"

definition callActorGetDataset ::
  "ActorRunWorld \<Rightarrow> string \<Rightarrow> nat option \<Rightarrow> bool \<Rightarrow> SignalTiming option
     \<Rightarrow> Effect list \<times> (Thrown + CallActorGetDatasetResult option)" where
  "callActorGetDataset w actorName memory progressTracker abortSignal =
     (case startOutcome w of
        Inl e \<Rightarrow> callActorFailed [ActorStart actorName memory] e
      | Inr actorRunId \<Rightarrow>
          (let started = [ActorStart actorName memory]
                 @ (if progressTracker then [TrackerStartActorRunUpdates actorRunId] else [])
           in case raceAbort w actorRunId abortSignal of
                (raced, CLIENT_ABORT) \<Rightarrow>
                  (started @ raced @ [LogInfo ''Actor run aborted by client''], Inr None)
              | (raced, Settled (Inl e)) \<Rightarrow> callActorFailed (started @ raced) e
              | (raced, Settled (Inr defaultDatasetId)) \<Rightarrow>
                  (case outputOutcome w of
                     Inl e \<Rightarrow> callActorFailed (started @ raced) e
                   | Inr count \<Rightarrow>
                       (started @ raced,
                        Inr (Some \<lparr>runId = actorRunId, datasetId = defaultDatasetId,
                                   itemCount = count\<rparr>)))))"

section \<open>The handler of tool calls (mcp/server.ts)\<close>

datatype ErrorCode = InvalidParams | InternalError

datatype McpError = McpError ErrorCode string

datatype ContentBlock = TextContent string

text \<open>
  A response is an object with or without the key \<open>content\<close>; \<open>Response None\<close> is the
  empty object.
\<close>

datatype Response = Response "ContentBlock list option"

text \<open>
  The arguments of a call are an object whose values the handler does not read.
\<close>

record 'v CallToolRequest =
  reqName :: string
  reqArguments :: "'v obj option"
  reqProgressToken :: "string option"
  reqApifyToken :: "string option"

text \<open>
  The collaborators of the handler: the token of the environment, the compiled
  validator of each tool, the \<open>call\<close> function of an internal tool, the connection to a
  proxied server and its \<open>callTool\<close>, the platform during the run of an Actor, and
  \<open>buildActorResponseContent\<close>.
\<close>

record 'v World =
  envApifyToken :: "string option"
  ajvValidate :: "ToolEntry \<Rightarrow> 'v obj \<Rightarrow> bool"
  internalCall :: "ToolEntry \<Rightarrow> 'v obj \<Rightarrow> Thrown + Response"
  proxyConnect :: "Thrown option"
  proxyCallTool :: "Thrown + Response"
  actorRun :: ActorRunWorld
  buildActorResponseContent :: "string \<Rightarrow> CallActorGetDatasetResult \<Rightarrow> ContentBlock list"

text \<open>\<open>a || b\<close> on optional strings, and \<open>!a\<close>: undefined and the empty string are falsy.\<close>

definition truthy :: "string option \<Rightarrow> bool" where
  "truthy a = (a \<noteq> None \<and> a \<noteq> Some [])"

definition orElse :: "string option \<Rightarrow> string option \<Rightarrow> string option" where
  "orElse a b = (if truthy a then a else b)"

text \<open>\<^verbatim>\<open>s.split(sep)\<close> for a non-empty separator; \<open>cur\<close> is the current part,
  reversed.\<close>

fun splitOn :: "string \<Rightarrow> string \<Rightarrow> string \<Rightarrow> string list" where
  "splitOn sep cur [] = [rev cur]"
| "splitOn sep cur (c # cs) =
     (if sep \<noteq> [] \<and> take (length sep) (c # cs) = sep
      then rev cur # splitOn sep [] (drop (length sep - 1) cs)
      else splitOn sep (c # cur) cs)"

definition split :: "string \<Rightarrow> string \<Rightarrow> string list" where
  "split s sep = splitOn sep [] s"

fun joinWith :: "string \<Rightarrow> string list \<Rightarrow> string" where
  "joinWith sep [] = []"
| "joinWith sep [x] = x"
| "joinWith sep (x # y # ys) = x @ sep @ joinWith sep (y # ys)"

text \<open>The name of the tool after the prefix of the client has been removed.\<close>

definition normalizeName :: "string \<Rightarrow> string" where
  "normalizeName name =
     (if startsWith name ''local__''
      then (let parts = split name ''__''
            in if length parts > 1 then last parts else name)
      else name)"

definition findTool :: "ActorsMcpServer \<Rightarrow> string \<Rightarrow> ToolEntry option" where
  "findTool s name =
     find (\<lambda>t. toolName t = name \<or> (entryType t = Actor \<and> actorFullName t = Some name))
       (map snd (tools s))"

definition invalidParams :: "string \<Rightarrow> Effect list \<times> (McpError + Response)" where
  "invalidParams msg =
     ([LogError msg, SendLoggingMessage ''error'' msg], Inl (McpError InvalidParams msg))"

text \<open>
  The body of the \<open>try\<close> block: the call of the resolved tool by its type. An exception
  it lets through is the left injection.
\<close>

definition dispatchTool ::
  "'v World \<Rightarrow> ToolEntry \<Rightarrow> 'v obj \<Rightarrow> string option \<Rightarrow> SignalTiming
     \<Rightarrow> Effect list \<times> (Thrown + Response)" where
  "dispatchTool w tool args progressToken signal =
     (case entryType tool of
        Internal \<Rightarrow>
          (let progressTracker = (toolName tool = ''call-actor'' \<and> truthy progressToken)
           in case internalCall w tool args of
                Inl e \<Rightarrow> ([LogInfo ''Calling internal tool'', InternalCall (toolName tool)], Inl e)
              | Inr res \<Rightarrow>
                  ([LogInfo ''Calling internal tool'', InternalCall (toolName tool)]
                     @ (if progressTracker then [TrackerStop] else []),
                   Inr res))
      | ActorMcp \<Rightarrow>
          (case proxyConnect w of
             Some e \<Rightarrow> ([ProxyConnect (case serverUrl tool of Some u \<Rightarrow> u | None \<Rightarrow> [])], Inl e)
           | None \<Rightarrow>
               ([ProxyConnect (case serverUrl tool of Some u \<Rightarrow> u | None \<Rightarrow> []),
                 LogInfo ''Calling Actor-MCP'',
                 ProxyCallTool (case originToolName tool of Some n \<Rightarrow> n | None \<Rightarrow> []),
                 ProxyClose],
                proxyCallTool w))
      | Actor \<Rightarrow>
          (let progressTracker = truthy progressToken;
               actorName = (case actorFullName tool of Some n \<Rightarrow> n | None \<Rightarrow> [])
           in case callActorGetDataset (actorRun w) actorName (memoryMbytes tool)
                     progressTracker (Some signal) of
                (effects, callResult) \<Rightarrow>
                  ([LogInfo ''Calling Actor''] @ effects
                     @ (if progressTracker then [TrackerStop] else []),
                   case callResult of
                     Inl e \<Rightarrow> Inl e
                   | Inr None \<Rightarrow> Inr (Response None)
                   | Inr (Some r) \<Rightarrow>
                       Inr (Response (Some (buildActorResponseContent w actorName r))))))"

text \<open>
  The handler of \<open>tools/call\<close>. The message of the validation failure is given without
  the JSON rendering of the arguments and of the validator's errors. Each of the three
  types of tool returns or throws inside the \<open>try\<close> block, so the final
  \<open>Unknown tool\<close> error of the source is not reached.
\<close>

definition callToolHandler ::
  "ActorsMcpServer \<Rightarrow> 'v World \<Rightarrow> 'v CallToolRequest \<Rightarrow> SignalTiming
     \<Rightarrow> Effect list \<times> (McpError + Response)" where
  "callToolHandler s w request signal =
     (let apifyToken = orElse (reqApifyToken request) (envApifyToken w)
      in if \<not> truthy apifyToken
         then invalidParams (''APIFY_TOKEN is required. It must be set in the environment ''
                @ ''variables or passed as a parameter in the body.'')
         else
          (let name = normalizeName (reqName request)
           in case findTool s name of
                None \<Rightarrow>
                  invalidParams (''Tool '' @ name @ '' not found. Available tools: ''
                                   @ joinWith '', '' (listToolNames s))
              | Some tool \<Rightarrow>
                  (case reqArguments request of
                     None \<Rightarrow> invalidParams (''Missing arguments for tool '' @ name)
                   | Some rawArgs \<Rightarrow>
                       (let args = decodeDotPropertyNames rawArgs
                        in if \<not> ajvValidate w tool args
                           then invalidParams (''Invalid arguments for tool '' @ toolName tool)
                           else
                            (case dispatchTool w tool args (reqProgressToken request) signal of
                               (effects, Inr res) \<Rightarrow> (effects, Inr res)
                             | (effects, Inl (ApifyApiError message)) \<Rightarrow>
                                 (effects @ [LogError ''Apify API error calling tool''],
                                  Inr (Response (Some [TextContent
                                     (''Apify API error calling tool '' @ name @ '': ''
                                        @ message)])))
                             | (effects, Inl (OtherError rendering)) \<Rightarrow>
                                 (effects @ [LogError ''Error calling tool''],
                                  Inl (McpError InternalError
                                     ''An error occurred while calling the tool.'')))))))"

section \<open>A concrete session\<close>

text \<open>
  A server with one internal tool and the tool of one Actor, a platform on which the
  run of the Actor succeeds, and a call with arguments.
\<close>

definition demoServer :: ActorsMcpServer where
  "demoServer =
     \<lparr>tools = [(''my-tool'', internalTool ''my-tool''),
               (''apify-slash-rag-web-browser'',
                actorToolEntry \<lparr>defActorFullName = ''apify/rag-web-browser'',
                                defMemoryMbytes = None\<rparr>)],
      toolsChangedHandler = False, handlerCalls = []\<rparr>"

definition demoRun :: ActorRunWorld where
  "demoRun =
     \<lparr>startOutcome = Inr ''run-1'', abortOutcome = None, waitOutcome = Inr ''dataset-1'',
      waitSettlesDuringAbort = False, outputOutcome = Inr 3\<rparr>"

definition demoWorld :: "string World" where
  "demoWorld =
     \<lparr>envApifyToken = Some ''token'',
      ajvValidate = (\<lambda>tool args. True),
      internalCall = (\<lambda>tool args. Inr (Response (Some [TextContent ''done'']))),
      proxyConnect = None,
      proxyCallTool = Inr (Response None),
      actorRun = demoRun,
      buildActorResponseContent =
        (\<lambda>actorName r. [TextContent ''preview'', TextContent (''Actor '' @ actorName)])\<rparr>"

definition demoRequest :: "string \<Rightarrow> string CallToolRequest" where
  "demoRequest name =
     \<lparr>reqName = name, reqArguments = Some [(''query'', ''restaurants'')],
      reqProgressToken = None, reqApifyToken = None\<rparr>"

section \<open>Properties of the string primitives\<close>

lemma take_length_eq: "(take (length p) s = p) = (\<exists>r. s = p @ r)"
  by (metis append_eq_conv_conj append_take_drop_id)

lemma replaceAll_single:
  "replaceAll [d] rep s = concat (map (\<lambda>c. if c = d then rep else [c]) s)"
  by (induction s) auto

lemma set_replaceAll_single:
  "set (replaceAll [d] rep s) \<subseteq> (set s - {d}) \<union> set rep"
  unfolding replaceAll_single by auto

lemma strIncludes_Cons:
  "strIncludes (c # cs) pat = ((\<exists>r. c # cs = pat @ r) \<or> strIncludes cs pat)"
  by (simp only: strIncludes.simps take_length_eq)

section \<open>Properties of the registry\<close>

lemma objSet_keys: "fst ` set (objSet m k v) = insert k (fst ` set m)"
proof (induction m)
  case Nil
  then show ?case by simp
next
  case (Cons a m)
  then show ?case by (cases a) (simp, blast)
qed

lemma objSet_distinct: "distinct (map fst m) \<Longrightarrow> distinct (map fst (objSet m k v))"
proof (induction m)
  case Nil
  then show ?case by simp
next
  case (Cons a m)
  then show ?case by (cases a) (auto simp add: objSet_keys)
qed

lemma filter_absent_key: "k \<notin> fst ` set m \<Longrightarrow> filter (\<lambda>kv. fst kv = k) m = []"
  by (induction m) auto

lemma objSet_filter:
  "distinct (map fst m) \<Longrightarrow> filter (\<lambda>kv. fst kv = k) (objSet m k v) = [(k, v)]"
proof (induction m)
  case Nil
  then show ?case by simp
next
  case (Cons a m)
  then show ?case using filter_absent_key[of k m] by (cases a) auto
qed

lemma objSet_twice: "objSet (objSet m k v) k v' = objSet m k v'"
  by (induction m) auto

lemma removeLoop_absent:
  "\<forall>n \<in> set names. \<not> mapHas (tools s) n \<Longrightarrow> removeLoop names acc s = (acc, s)"
  by (induction names arbitrary: acc) (auto simp: removeToolByName_def)

lemma tools_notify: "tools (notifyToolsChangedHandler s) = tools s"
  by (simp add: notifyToolsChangedHandler_def)

lemma tools_upsert:
  "tools (upsertTools ts n s) = fold (\<lambda>wrap m. objSet m (toolName wrap) wrap) ts (tools s)"
  by (simp add: upsertTools_def Let_def tools_notify)

text \<open>
  C7. In a registry whose keys are distinct, as those of a \<open>Map\<close> are, upserting the same
  entry twice leaves exactly one entry under the name of the tool, the entry itself, and
  the second upsert does not change the map. Removing names of which none is in the
  registry returns no removed name and the state as it was: the map is unchanged and
  the tools-changed handler has not been called, whatever the notification flag.
\<close>

theorem registry_upsert_twice_remove_absent:
  "(distinct (map fst (tools s)) \<longrightarrow>
      filter (\<lambda>kv. fst kv = toolName e) (tools (upsertTools [e] n2 (upsertTools [e] n1 s)))
        = [(toolName e, e)]
      \<and> tools (upsertTools [e] n2 (upsertTools [e] n1 s)) = tools (upsertTools [e] n1 s))
   \<and> ((\<forall>n \<in> set names. \<not> mapHas (tools s) n) \<longrightarrow>
        removeToolsByName names notify s = ([], s))"
  by (simp add: tools_upsert objSet_twice objSet_filter removeToolsByName_def removeLoop_absent)

theorem registry_upsert_twice_remove_absent_witness:
  "distinct (map fst (tools
      \<lparr>tools = [(''call-actor'', callActor)], toolsChangedHandler = True, handlerCalls = []\<rparr>))
   \<and> tools (upsertTools [addTool] True (upsertTools [addTool] False
         \<lparr>tools = [(''call-actor'', callActor)], toolsChangedHandler = True, handlerCalls = []\<rparr>))
      = [(''call-actor'', callActor), (''add-actor'', addTool)]
   \<and> \<not> mapHas (tools
         \<lparr>tools = [(''call-actor'', callActor)], toolsChangedHandler = True, handlerCalls = []\<rparr>)
         ''search-actors''
   \<and> \<not> mapHas (tools
         \<lparr>tools = [(''call-actor'', callActor)], toolsChangedHandler = True, handlerCalls = []\<rparr>)
         ''x''
   \<and> removeToolsByName [''search-actors'', ''x''] True
        \<lparr>tools = [(''call-actor'', callActor)], toolsChangedHandler = True, handlerCalls = []\<rparr>
       = ([], \<lparr>tools = [(''call-actor'', callActor)], toolsChangedHandler = True,
               handlerCalls = []\<rparr>)"
  using registry_upsert_twice_remove_absent[of
      "\<lparr>tools = [(''call-actor'', callActor)], toolsChangedHandler = True, handlerCalls = []\<rparr>"
      addTool True False "[''search-actors'', ''x'']" True]
  by (simp add: upsertTools_def mapHas_def addTool_def internalTool_def
      notifyToolsChangedHandler_def)

section \<open>Properties of the tool names\<close>

lemma actorNameToToolName_map:
  "actorNameToToolName n =
     take 64 (concat (map (\<lambda>c. if c = CHR ''/'' then ''-slash-''
                                else if c = CHR ''.'' then ''-dot-'' else [c]) n))"
proof -
  have "replaceAll ''.'' ''-dot-'' (replaceAll ''/'' ''-slash-'' n) =
        concat (map (\<lambda>c. if c = CHR ''/'' then ''-slash-''
                          else if c = CHR ''.'' then ''-dot-'' else [c]) n)"
    unfolding replaceAll_single by (induction n) auto
  then show ?thesis by (simp add: actorNameToToolName_def)
qed

lemma actorNameToToolName_length: "length (actorNameToToolName n) \<le> 64"
  by (simp add: actorNameToToolName_def)

lemma actorNameToToolName_chars:
  "CHR ''/'' \<notin> set (actorNameToToolName n) \<and> CHR ''.'' \<notin> set (actorNameToToolName n)"
proof -
  let ?a = "replaceAll ''/'' ''-slash-'' n"
  let ?b = "replaceAll ''.'' ''-dot-'' ?a"
  have a: "CHR ''/'' \<notin> set ?a"
    using set_replaceAll_single[of "CHR ''/''" "''-slash-''" n] by auto
  have b: "set ?b \<subseteq> (set ?a - {CHR ''.''}) \<union> set ''-dot-''"
    by (rule set_replaceAll_single)
  have "CHR ''/'' \<notin> set ?b \<and> CHR ''.'' \<notin> set ?b" using a b by auto
  moreover have "set (actorNameToToolName n) \<subseteq> set ?b"
    unfolding actorNameToToolName_def by (rule set_take_subset)
  ultimately show ?thesis by blast
qed

lemma actorNameToToolName_not_inj: "\<not> inj actorNameToToolName"
proof
  assume "inj actorNameToToolName"
  moreover have "actorNameToToolName ''a/b'' = actorNameToToolName ''a-slash-b''"
    by (simp add: actorNameToToolName_def)
  ultimately have "''a/b'' = ''a-slash-b''" by (rule injD)
  then show False by simp
qed

lemma getNormalActorsAsTools_map:
  "getNormalActorsAsTools ajvCompiles actorsInfo =
     map actorToolEntry (filter ajvCompiles (List.map_filter actorDefinitionPruned actorsInfo))"
  by (induction actorsInfo) (auto simp: List.map_filter_simps split: option.splits)

lemma getNormalActorsAsTools_entry:
  "e \<in> set (getNormalActorsAsTools ajvCompiles actorsInfo) \<Longrightarrow>
   \<exists>d. Some d \<in> actorDefinitionPruned ` set actorsInfo \<and> ajvCompiles d \<and> e = actorToolEntry d"
  by (induction actorsInfo) (auto split: option.splits if_splits)

lemma actorToolEntry_fields:
  "entryType (actorToolEntry d) = Actor
   \<and> actorFullName (actorToolEntry d) = Some (defActorFullName d)
   \<and> toolName (actorToolEntry d) = actorNameToToolName (defActorFullName d)"
  by (simp add: actorToolEntry_def Let_def)

lemma upsert_same_name_last_wins:
  assumes "distinct (map fst (tools s))" and "toolName e1 = toolName e2"
  shows "filter (\<lambda>kv. fst kv = toolName e2) (tools (upsertTools [e1, e2] notify s))
           = [(toolName e2, e2)]"
  using assms by (simp add: tools_upsert objSet_twice objSet_filter)

text \<open>
  C10. \<open>getNormalActorsAsTools\<close> builds one entry for each definition it is given whose
  schema compiles, in order, and nothing else; the entry built from a definition is an
  Actor entry with the full name of the definition and the name \<open>actorNameToToolName\<close>
  of that full name. That name is the first 64 characters of the full name with every
  \<open>/\<close> replaced by \<open>-slash-\<close> and every \<open>.\<close> by \<open>-dot-\<close>; it has at most 64 characters
  and contains neither \<open>/\<close> nor \<open>.\<close>. The mapping is not injective, and when two
  entries of the same name are upserted into a registry with distinct keys, the registry
  holds one entry under that name, the later one.
\<close>

theorem actor_tool_name_bounded_not_injective:
  "getNormalActorsAsTools ajvCompiles actorsInfo =
     map actorToolEntry (filter ajvCompiles (List.map_filter actorDefinitionPruned actorsInfo))
   \<and> entryType (actorToolEntry d) = Actor
   \<and> actorFullName (actorToolEntry d) = Some (defActorFullName d)
   \<and> toolName (actorToolEntry d) = actorNameToToolName (defActorFullName d)
   \<and> (\<forall>e \<in> set (getNormalActorsAsTools ajvCompiles actorsInfo).
        \<exists>d'. Some d' \<in> actorDefinitionPruned ` set actorsInfo \<and> ajvCompiles d'
             \<and> e = actorToolEntry d' \<and> entryType e = Actor
             \<and> actorFullName e = Some (defActorFullName d')
             \<and> toolName e = actorNameToToolName (defActorFullName d'))
   \<and> actorNameToToolName n =
       take 64 (concat (map (\<lambda>c. if c = CHR ''/'' then ''-slash-''
                                  else if c = CHR ''.'' then ''-dot-'' else [c]) n))
   \<and> length (actorNameToToolName n) \<le> 64
   \<and> CHR ''/'' \<notin> set (actorNameToToolName n) \<and> CHR ''.'' \<notin> set (actorNameToToolName n)
   \<and> \<not> inj actorNameToToolName
   \<and> (distinct (map fst (tools s)) \<and> toolName e1 = toolName e2 \<longrightarrow>
        filter (\<lambda>kv. fst kv = toolName e2) (tools (upsertTools [e1, e2] notify s))
          = [(toolName e2, e2)])"
proof -
  have "\<forall>e \<in> set (getNormalActorsAsTools ajvCompiles actorsInfo).
        \<exists>d'. Some d' \<in> actorDefinitionPruned ` set actorsInfo \<and> ajvCompiles d'
             \<and> e = actorToolEntry d' \<and> entryType e = Actor
             \<and> actorFullName e = Some (defActorFullName d')
             \<and> toolName e = actorNameToToolName (defActorFullName d')"
    using getNormalActorsAsTools_entry actorToolEntry_fields by blast
  then show ?thesis
    using getNormalActorsAsTools_map[of ajvCompiles actorsInfo] actorToolEntry_fields[of d]
      actorNameToToolName_map[of n] actorNameToToolName_length[of n]
      actorNameToToolName_chars[of n] actorNameToToolName_not_inj
      upsert_same_name_last_wins[of s e1 e2 notify]
    by blast
qed

theorem actor_tool_name_bounded_not_injective_witness:
  "getNormalActorsAsTools (\<lambda>d. defActorFullName d \<noteq> ''bad/schema'')
      [\<lparr>actorDefinitionPruned = Some \<lparr>defActorFullName = ''a/b'', defMemoryMbytes = None\<rparr>,
        webServerMcpPath = None\<rparr>,
       \<lparr>actorDefinitionPruned = None, webServerMcpPath = None\<rparr>,
       \<lparr>actorDefinitionPruned = Some \<lparr>defActorFullName = ''bad/schema'', defMemoryMbytes = None\<rparr>,
        webServerMcpPath = None\<rparr>,
       \<lparr>actorDefinitionPruned = Some \<lparr>defActorFullName = ''apify/web.scraper'',
          defMemoryMbytes = Some 8192\<rparr>, webServerMcpPath = None\<rparr>]
     = [\<lparr>entryType = Actor, toolName = ''a-slash-b'', actorFullName = Some ''a/b'',
         memoryMbytes = Some 4096, originToolName = None, actorId = None, serverUrl = None\<rparr>,
        \<lparr>entryType = Actor, toolName = ''apify-slash-web-dot-scraper'',
         actorFullName = Some ''apify/web.scraper'',
         memoryMbytes = Some 4096, originToolName = None, actorId = None, serverUrl = None\<rparr>]
   \<and> actorNameToToolName ''apify/rag-web-browser'' = ''apify-slash-rag-web-browser''
   \<and> distinct (map fst (tools
        \<lparr>tools = [], toolsChangedHandler = False, handlerCalls = []\<rparr>))
   \<and> toolName (actorToolEntry \<lparr>defActorFullName = ''a/b'', defMemoryMbytes = None\<rparr>)
       = toolName (actorToolEntry \<lparr>defActorFullName = ''a-slash-b'', defMemoryMbytes = None\<rparr>)
   \<and> tools (upsertTools
        [actorToolEntry \<lparr>defActorFullName = ''a/b'', defMemoryMbytes = None\<rparr>,
         actorToolEntry \<lparr>defActorFullName = ''a-slash-b'', defMemoryMbytes = None\<rparr>] False
        \<lparr>tools = [], toolsChangedHandler = False, handlerCalls = []\<rparr>)
       = [(''a-slash-b'',
           actorToolEntry \<lparr>defActorFullName = ''a-slash-b'', defMemoryMbytes = None\<rparr>)]"
  using actor_tool_name_bounded_not_injective[of
      "\<lambda>d. defActorFullName d \<noteq> ''bad/schema''"
      "[\<lparr>actorDefinitionPruned = Some \<lparr>defActorFullName = ''a/b'', defMemoryMbytes = None\<rparr>,
        webServerMcpPath = None\<rparr>,
       \<lparr>actorDefinitionPruned = None, webServerMcpPath = None\<rparr>,
       \<lparr>actorDefinitionPruned = Some \<lparr>defActorFullName = ''bad/schema'', defMemoryMbytes = None\<rparr>,
        webServerMcpPath = None\<rparr>,
       \<lparr>actorDefinitionPruned = Some \<lparr>defActorFullName = ''apify/web.scraper'',
          defMemoryMbytes = Some 8192\<rparr>, webServerMcpPath = None\<rparr>]"
      "\<lparr>defActorFullName = ''a/b'', defMemoryMbytes = None\<rparr>"
      "''apify/rag-web-browser''"
      "\<lparr>tools = [], toolsChangedHandler = False, handlerCalls = []\<rparr>"
      "actorToolEntry \<lparr>defActorFullName = ''a/b'', defMemoryMbytes = None\<rparr>"
      "actorToolEntry \<lparr>defActorFullName = ''a-slash-b'', defMemoryMbytes = None\<rparr>" False]
  by (simp add: upsertTools_def actorToolEntry_def actorNameToToolName_def Let_def
      ACTOR_MAX_MEMORY_MBYTES_def)

section \<open>Properties of the shortening pass\<close>

lemma shortenEnumFilter_over:
  "ACTOR_ENUM_MAX_LENGTH < c \<Longrightarrow> shortenEnumFilter c es = []"
  by (induction es arbitrary: c) auto

lemma shortenEnumFilter_sum:
  "c \<le> ACTOR_ENUM_MAX_LENGTH \<Longrightarrow>
   c + sum_list (map length (shortenEnumFilter c es)) \<le> ACTOR_ENUM_MAX_LENGTH"
proof (induction es arbitrary: c)
  case Nil
  then show ?case by simp
next
  case (Cons v es)
  show ?case
  proof (cases "c + length v \<le> ACTOR_ENUM_MAX_LENGTH")
    case True
    then show ?thesis using Cons.IH[of "c + length v"] by simp
  next
    case False
    then show ?thesis using Cons.prems shortenEnumFilter_over[of "c + length v" es] by simp
  qed
qed

lemma shortenEnumFilter_prefix:
  "\<exists>n. shortenEnumFilter c es = take n es"
proof (induction es arbitrary: c)
  case Nil
  then show ?case by simp
next
  case (Cons v es)
  show ?case
  proof (cases "c + length v \<le> ACTOR_ENUM_MAX_LENGTH")
    case True
    obtain n where "shortenEnumFilter (c + length v) es = take n es" using Cons.IH by blast
    then have "shortenEnumFilter c (v # es) = take (Suc n) (v # es)" using True by simp
    then show ?thesis by blast
  next
    case False
    then have "shortenEnumFilter c (v # es) = take 0 (v # es)"
      using shortenEnumFilter_over[of "c + length v" es] by simp
    then show ?thesis by blast
  qed
qed

lemma shortenEnum_Some:
  "shortenEnum orig = Some es \<Longrightarrow>
   es \<noteq> [] \<and> sum_list (map length es) \<le> ACTOR_ENUM_MAX_LENGTH \<and> (\<exists>n. es = take n orig)"
proof -
  assume "shortenEnum orig = Some es"
  then have es: "es = shortenEnumFilter 0 orig" and ne: "es \<noteq> []"
    by (auto simp: shortenEnum_def Let_def split: if_splits)
  have "sum_list (map length es) \<le> ACTOR_ENUM_MAX_LENGTH"
    using shortenEnumFilter_sum[of 0 orig] es by simp
  moreover have "\<exists>n. es = take n orig"
    using shortenEnumFilter_prefix[of 0 orig] es by simp
  ultimately show ?thesis using ne by blast
qed

lemma shortenEnum_None:
  "(shortenEnum orig = None) = (orig = [] \<or> ACTOR_ENUM_MAX_LENGTH < length (hd orig))"
  using shortenEnumFilter_over[of "length (hd orig)" "tl orig"]
  by (cases orig) (auto simp: shortenEnum_def Let_def)

lemma shortenProperty_description:
  "description (shortenProperty p) =
     (if length (description p) > ACTOR_MAX_DESCRIPTION_LENGTH
      then take ACTOR_MAX_DESCRIPTION_LENGTH (description p) @ ''...'' else description p)"
  by (simp add: shortenProperty_def Let_def split: option.splits)

lemma shortenProperty_enum:
  "enumValues (shortenProperty p) =
     (case enumValues p of None \<Rightarrow> None
      | Some e \<Rightarrow> if e = [] then Some [] else shortenEnum e)"
  by (simp add: shortenProperty_def Let_def split: option.splits)

lemma shortenProperty_items:
  "items (shortenProperty p) =
     (case items p of None \<Rightarrow> None
      | Some it \<Rightarrow> (case itemsEnum it of None \<Rightarrow> Some it
           | Some e \<Rightarrow> if e = [] then Some it else Some (it\<lparr>itemsEnum := shortenEnum e\<rparr>)))"
  by (simp add: shortenProperty_def Let_def split: option.splits)

lemma shortenProperty_enum_bound:
  assumes "enumValues (shortenProperty p) = Some es"
  shows "sum_list (map length es) \<le> ACTOR_ENUM_MAX_LENGTH
         \<and> (\<exists>orig n. enumValues p = Some orig \<and> es = take n orig)"
proof (cases "enumValues p")
  case None
  then show ?thesis using assms by (simp add: shortenProperty_enum)
next
  case (Some e)
  show ?thesis
  proof (cases "e = []")
    case True
    then show ?thesis using assms Some by (simp add: shortenProperty_enum)
  next
    case False
    then have "shortenEnum e = Some es" using assms Some by (simp add: shortenProperty_enum)
    then show ?thesis using shortenEnum_Some[of e es] Some by blast
  qed
qed

lemma shortenProperty_items_bound:
  assumes "items (shortenProperty p) = Some it'" and "itemsEnum it' = Some es"
  shows "sum_list (map length es) \<le> ACTOR_ENUM_MAX_LENGTH
         \<and> (\<exists>it orig n. items p = Some it \<and> itemsEnum it = Some orig \<and> es = take n orig)"
proof -
  from assms obtain it where it: "items p = Some it"
    by (cases "items p") (auto simp: shortenProperty_items)
  show ?thesis
  proof (cases "itemsEnum it")
    case None
    then show ?thesis using assms it by (auto simp: shortenProperty_items)
  next
    case (Some e)
    show ?thesis
    proof (cases "e = []")
      case True
      then show ?thesis using assms it Some by (auto simp: shortenProperty_items)
    next
      case False
      then have "shortenEnum e = Some es" using assms it Some by (auto simp: shortenProperty_items)
      then show ?thesis using shortenEnum_Some[of e es] Some it by blast
    qed
  qed
qed


lemma shortenProperties_entry:
  "(key, q) \<in> set (shortenProperties properties) \<Longrightarrow>
   \<exists>p. (key, p) \<in> set properties \<and> q = shortenProperty p"
  by (auto simp: shortenProperties_def)

lemma shortenProperty_long_description:
  assumes "ACTOR_MAX_DESCRIPTION_LENGTH < length (description p)"
  shows "description (shortenProperty p) = take 500 (description p) @ ''...''
         \<and> length (description (shortenProperty p)) \<le> 503
         \<and> drop (length (description (shortenProperty p)) - 3) (description (shortenProperty p))
             = ''...''"
  using assms by (simp add: shortenProperty_description ACTOR_MAX_DESCRIPTION_LENGTH_def)

lemma shortenProperty_enum_removed:
  assumes "enumValues p = Some orig" and "orig \<noteq> []"
    and "ACTOR_ENUM_MAX_LENGTH < length (hd orig)"
  shows "enumValues (shortenProperty p) = None"
  using assms shortenEnum_None[of orig] by (simp add: shortenProperty_enum)

lemma shortenProperties_keys: "map fst (shortenProperties properties) = map fst properties"
  by (induction properties) (auto simp: shortenProperties_def)

lemma shortenProperties_input:
  "(key, p) \<in> set properties \<Longrightarrow>
   (key, shortenProperty p) \<in> set (shortenProperties properties)"
  by (force simp: shortenProperties_def)

lemma shortenProperties_nth:
  "i < length properties \<Longrightarrow>
   shortenProperties properties ! i
     = (fst (properties ! i), shortenProperty (snd (properties ! i)))"
  by (simp add: shortenProperties_def case_prod_beta)

lemma shortenProperty_bounds:
  "(500 < length (description p) \<longrightarrow>
      description (shortenProperty p) = take 500 (description p) @ ''...''
      \<and> length (description (shortenProperty p)) \<le> 503
      \<and> drop (length (description (shortenProperty p)) - 3) (description (shortenProperty p))
           = ''...'')
   \<and> (\<forall>es. enumValues (shortenProperty p) = Some es \<longrightarrow>
         sum_list (map length es) \<le> 200
         \<and> (\<exists>orig n. enumValues p = Some orig \<and> es = take n orig))
   \<and> (\<forall>orig. enumValues p = Some orig \<and> orig \<noteq> [] \<and> 200 < length (hd orig) \<longrightarrow>
         enumValues (shortenProperty p) = None)
   \<and> (\<forall>it' es. items (shortenProperty p) = Some it' \<and> itemsEnum it' = Some es \<longrightarrow>
         sum_list (map length es) \<le> 200
         \<and> (\<exists>it orig n. items p = Some it \<and> itemsEnum it = Some orig \<and> es = take n orig))"
proof -
  have d: "500 < length (description p) \<longrightarrow>
      description (shortenProperty p) = take 500 (description p) @ ''...''
      \<and> length (description (shortenProperty p)) \<le> 503
      \<and> drop (length (description (shortenProperty p)) - 3) (description (shortenProperty p))
           = ''...''"
    using shortenProperty_long_description[of p]
    by (simp add: ACTOR_MAX_DESCRIPTION_LENGTH_def)
  have e: "\<forall>es. enumValues (shortenProperty p) = Some es \<longrightarrow>
         sum_list (map length es) \<le> 200
         \<and> (\<exists>orig n. enumValues p = Some orig \<and> es = take n orig)"
    using shortenProperty_enum_bound[of p] by (simp add: ACTOR_ENUM_MAX_LENGTH_def)
  have r: "\<forall>orig. enumValues p = Some orig \<and> orig \<noteq> [] \<and> 200 < length (hd orig) \<longrightarrow>
         enumValues (shortenProperty p) = None"
    using shortenProperty_enum_removed[of p] by (simp add: ACTOR_ENUM_MAX_LENGTH_def)
  have i: "\<forall>it' es. items (shortenProperty p) = Some it' \<and> itemsEnum it' = Some es \<longrightarrow>
         sum_list (map length es) \<le> 200
         \<and> (\<exists>it orig n. items p = Some it \<and> itemsEnum it = Some orig \<and> es = take n orig)"
    using shortenProperty_items_bound[of p] by (simp add: ACTOR_ENUM_MAX_LENGTH_def)
  show ?thesis using d e r i by blast
qed

text \<open>
  C9. The pass keeps the keys and their order and replaces every property by its
  shortened form: every property of the input has its shortened form in the output
  under the same key, and every property of the output is the shortened form of the
  input property under its key. When the input description is longer than 500
  characters, the output description is its first 500 characters followed by \<open>...\<close>,
  so it has at most 503 characters and ends in \<open>...\<close>. An enum of the output, of the
  property or of its items, is a prefix of the input enum whose lengths add up to at
  most 200; and a non-empty input enum whose first value is longer than 200 characters,
  so that no value fits, is removed.
\<close>

theorem shorten_properties_bounds:
  "map fst (shortenProperties properties) = map fst properties
   \<and> (i < length properties \<longrightarrow>
        shortenProperties properties ! i
          = (fst (properties ! i), shortenProperty (snd (properties ! i))))
   \<and> ((key, p) \<in> set properties \<longrightarrow>
        (key, shortenProperty p) \<in> set (shortenProperties properties))
   \<and> ((key, q) \<in> set (shortenProperties properties) \<longrightarrow>
        (\<exists>p'. (key, p') \<in> set properties \<and> q = shortenProperty p'))
   \<and> (500 < length (description p) \<longrightarrow>
        description (shortenProperty p) = take 500 (description p) @ ''...''
        \<and> length (description (shortenProperty p)) \<le> 503
        \<and> drop (length (description (shortenProperty p)) - 3) (description (shortenProperty p))
             = ''...'')
   \<and> (\<forall>es. enumValues (shortenProperty p) = Some es \<longrightarrow>
         sum_list (map length es) \<le> 200
         \<and> (\<exists>orig n. enumValues p = Some orig \<and> es = take n orig))
   \<and> (\<forall>orig. enumValues p = Some orig \<and> orig \<noteq> [] \<and> 200 < length (hd orig) \<longrightarrow>
         enumValues (shortenProperty p) = None)
   \<and> (\<forall>it' es. items (shortenProperty p) = Some it' \<and> itemsEnum it' = Some es \<longrightarrow>
         sum_list (map length es) \<le> 200
         \<and> (\<exists>it orig n. items p = Some it \<and> itemsEnum it = Some orig \<and> es = take n orig))"
  using shortenProperties_keys[of properties] shortenProperties_nth[of i properties]
    shortenProperties_input[of key p properties] shortenProperties_entry[of key q properties]
    shortenProperty_bounds[of p]
  by blast

theorem shorten_properties_bounds_witness:
  "shortenProperties
     [(''mode'', \<lparr>propType = ''string'', title = ''Mode'',
         description = replicate 501 (CHR ''d''),
         enumValues = Some [replicate 150 (CHR ''a''), replicate 60 (CHR ''b''), ''c''],
         items = None\<rparr>),
      (''tags'', \<lparr>propType = ''array'', title = ''Tags'',
         description = replicate 600 (CHR ''e''),
         enumValues = Some [replicate 201 (CHR ''x''), ''y''],
         items = Some \<lparr>itemsType = Some ''string'',
                       itemsEnum = Some [replicate 120 (CHR ''p''), replicate 81 (CHR ''q'')]\<rparr>\<rparr>)]
   = [(''mode'', \<lparr>propType = ''string'', title = ''Mode'',
         description = replicate 500 (CHR ''d'') @ ''...'',
         enumValues = Some [replicate 150 (CHR ''a'')],
         items = None\<rparr>),
      (''tags'', \<lparr>propType = ''array'', title = ''Tags'',
         description = replicate 500 (CHR ''e'') @ ''...'',
         enumValues = None,
         items = Some \<lparr>itemsType = Some ''string'',
                       itemsEnum = Some [replicate 120 (CHR ''p'')]\<rparr>\<rparr>)]
   \<and> (1::nat) < length
        [(''mode'', \<lparr>propType = ''string'', title = ''Mode'',
         description = replicate 501 (CHR ''d''),
         enumValues = Some [replicate 150 (CHR ''a''), replicate 60 (CHR ''b''), ''c''],
         items = None\<rparr>),
      (''tags'', \<lparr>propType = ''array'', title = ''Tags'',
         description = replicate 600 (CHR ''e''),
         enumValues = Some [replicate 201 (CHR ''x''), ''y''],
         items = Some \<lparr>itemsType = Some ''string'',
                       itemsEnum = Some [replicate 120 (CHR ''p''), replicate 81 (CHR ''q'')]\<rparr>\<rparr>)]
   \<and> 500 < length (description \<lparr>propType = ''array'', title = ''Tags'',
         description = replicate 600 (CHR ''e''),
         enumValues = Some [replicate 201 (CHR ''x''), ''y''],
         items = Some \<lparr>itemsType = Some ''string'',
                       itemsEnum = Some [replicate 120 (CHR ''p''), replicate 81 (CHR ''q'')]\<rparr>\<rparr>)
   \<and> length (description (shortenProperty \<lparr>propType = ''array'', title = ''Tags'',
         description = replicate 600 (CHR ''e''),
         enumValues = Some [replicate 201 (CHR ''x''), ''y''],
         items = Some \<lparr>itemsType = Some ''string'',
                       itemsEnum = Some [replicate 120 (CHR ''p''), replicate 81 (CHR ''q'')]\<rparr>\<rparr>))
       = 503"
  using shorten_properties_bounds[of
      "[(''mode'', \<lparr>propType = ''string'', title = ''Mode'',
         description = replicate 501 (CHR ''d''),
         enumValues = Some [replicate 150 (CHR ''a''), replicate 60 (CHR ''b''), ''c''],
         items = None\<rparr>),
      (''tags'', \<lparr>propType = ''array'', title = ''Tags'',
         description = replicate 600 (CHR ''e''),
         enumValues = Some [replicate 201 (CHR ''x''), ''y''],
         items = Some \<lparr>itemsType = Some ''string'',
                       itemsEnum = Some [replicate 120 (CHR ''p''), replicate 81 (CHR ''q'')]\<rparr>\<rparr>)]"
      1 "''tags''"
      "\<lparr>propType = ''array'', title = ''Tags'',
         description = replicate 600 (CHR ''e''),
         enumValues = Some [replicate 201 (CHR ''x''), ''y''],
         items = Some \<lparr>itemsType = Some ''string'',
                       itemsEnum = Some [replicate 120 (CHR ''p''), replicate 81 (CHR ''q'')]\<rparr>\<rparr>"
      "shortenProperty \<lparr>propType = ''array'', title = ''Tags'',
         description = replicate 600 (CHR ''e''),
         enumValues = Some [replicate 201 (CHR ''x''), ''y''],
         items = Some \<lparr>itemsType = Some ''string'',
                       itemsEnum = Some [replicate 120 (CHR ''p''), replicate 81 (CHR ''q'')]\<rparr>\<rparr>"]
  by (simp add: shortenProperties_def shortenProperty_def shortenEnum_def Let_def
      ACTOR_MAX_DESCRIPTION_LENGTH_def ACTOR_ENUM_MAX_LENGTH_def)

section \<open>Properties of the cache\<close>














section \<open>Properties of the loader\<close>

text \<open>The definitions that evaluate the loader on a concrete input.\<close>

lemmas loader_defs = loadToolsFromInput_def composeResult_def internalSelection_def
  invokesActor_def actorNamesToLoad_def actorsFromField_def addActorEnabled_def
  actorsExplicitlyEmpty_def normalizeSelectors_def partitionSelectors_def partitionSelector_def
  trim_def isWhiteSpace_def toolCategories_def toolCategoriesTable_def objectPrototypeKeys_def
  getInternalToolByNameMap_def getExpectedToolsByCategories_def
  toolCategoriesEnabledByDefault_def defaultsActors_def
  addTool_def callActor_def getActorOutput_def fetchActorDetailsTool_def searchActors_def
  searchApifyDocsTool_def fetchApifyDocsTool_def getActorRun_def getUserRunsList_def
  getActorRunLog_def getDataset_def getDatasetItems_def getDatasetSchema_def
  getKeyValueStore_def getKeyValueStoreKeys_def getKeyValueStoreRecord_def
  getUserDatasetsList_def getUserKeyValueStoresList_def internalTool_def
  actorToolEntry_def actorNameToToolName_def ACTOR_MAX_MEMORY_MBYTES_def Let_def

lemma partitionSelector_inherited:
  "isInheritedSelector selector \<Longrightarrow> partitionSelector selector acc = Inl TypeError"
  by (cases acc) (simp add: partitionSelector_def isInheritedSelector_def)

lemma partitionSelector_other:
  "\<not> isInheritedSelector selector \<Longrightarrow>
   \<exists>a'. partitionSelector selector (a, b)
          = Inr (a', b @ (if isActorSelector selector then [selector] else []))"
  by (auto simp: partitionSelector_def isInheritedSelector_def isActorSelector_def
      split: CategoryLookup.splits option.splits)

lemma partitionLoop_inherited:
  "list_ex isInheritedSelector sel \<Longrightarrow> partitionLoop sel acc = Inl TypeError"
proof (induction sel arbitrary: acc)
  case Nil
  then show ?case by simp
next
  case (Cons s sel)
  show ?case
  proof (cases "isInheritedSelector s")
    case True
    then show ?thesis by (simp add: partitionSelector_inherited)
  next
    case False
    then obtain a' where "partitionSelector s (fst acc, snd acc)
          = Inr (a', snd acc @ (if isActorSelector s then [s] else []))"
      using partitionSelector_other by blast
    then show ?thesis using Cons False by simp
  qed
qed

lemma partitionLoop_other:
  "\<not> list_ex isInheritedSelector sel \<Longrightarrow>
   \<exists>a'. partitionLoop sel (a, b) = Inr (a', b @ filter isActorSelector sel)"
proof (induction sel arbitrary: a b)
  case Nil
  then show ?case by simp
next
  case (Cons s sel)
  then have s: "\<not> isInheritedSelector s" and r: "\<not> list_ex isInheritedSelector sel" by simp_all
  obtain a1 where 1: "partitionSelector s (a, b)
          = Inr (a1, b @ (if isActorSelector s then [s] else []))"
    using partitionSelector_other[OF s] by blast
  obtain a2 where "partitionLoop sel (a1, b @ (if isActorSelector s then [s] else []))
          = Inr (a2, (b @ (if isActorSelector s then [s] else [])) @ filter isActorSelector sel)"
    using Cons.IH[OF r] by blast
  then show ?case using 1 by auto
qed

text \<open>The selectors of an input: none when the field is absent.\<close>

lemma partitionSelectors_inherited:
  "normalizeSelectors (inputTools input) = Some sel \<Longrightarrow> list_ex isInheritedSelector sel \<Longrightarrow>
   loadToolsFromInput g input = Inl TypeError"
  using partitionLoop_inherited[of sel "([], [])"]
  by (cases sel) (simp_all add: loadToolsFromInput_def partitionSelectors_def)

lemma partitionSelectors_other:
  "\<not> list_ex isInheritedSelector sel \<Longrightarrow>
   \<exists>a'. partitionSelectors (Some sel) = Inr (a', filter isActorSelector sel)"
  using partitionLoop_other[of sel "[]" "[]"]
  by (cases sel) (simp_all add: partitionSelectors_def)

text \<open>
  The result of the loader in general. When a selector names an inherited member the
  loader throws. Otherwise the result is composed of the internal selection, of what
  the platform returns for the names decided by the priority (nothing is asked of the
  platform when there is no name), and of \<open>get-actor-output\<close>.
\<close>

lemma loader_result_by_priority:
  "loadToolsFromInput g input =
     (case normalizeSelectors (inputTools input) of
        None \<Rightarrow>
          Inr (composeResult g (internalSelection input [])
                 (case actorsFromField input of
                    Some names \<Rightarrow> names
                  | None \<Rightarrow> if addActorEnabled input then [] else defaultsActors))
      | Some sel \<Rightarrow>
          if list_ex isInheritedSelector sel then Inl TypeError
          else Inr (composeResult g
                 (internalSelection input (fst (projr (partitionSelectors (Some sel)))))
                 (case actorsFromField input of
                    Some names \<Rightarrow> names
                  | None \<Rightarrow> filter isActorSelector sel)))"
proof (cases "normalizeSelectors (inputTools input)")
  case None
  then show ?thesis
    by (simp add: loadToolsFromInput_def partitionSelectors_def actorNamesToLoad_def Let_def
        split: option.splits)
next
  case (Some sel)
  show ?thesis
  proof (cases "list_ex isInheritedSelector sel")
    case True
    then show ?thesis using Some partitionSelectors_inherited[OF Some True] by simp
  next
    case False
    then obtain a' where p: "partitionSelectors (Some sel) = Inr (a', filter isActorSelector sel)"
      using partitionSelectors_other by blast
    then show ?thesis using Some False
      by (simp add: loadToolsFromInput_def actorNamesToLoad_def Let_def split: option.splits)
  qed
qed

text \<open>
  C2. A normalized input whose selector list names a member that \<open>toolCategories\<close>
  inherits: the loader throws a \<open>TypeError\<close> and resolves no Actor name, where the claim
  has the selector taken for the name of an Actor. For the selector
  \<open>apify/web-scraper\<close> in its place the tools of that Actor are loaded
  (\<open>loader_result_by_priority\<close> is the result of the loader in general).
\<close>

theorem loader_throws_on_inherited_selector:
  "loadToolsFromInput g
      \<lparr>inputActors = None, enableAddingActors = Some (JBool False),
       inputTools = Some (Lst [''constructor''])\<rparr> = Inl TypeError
   \<and> loadToolsFromInput g
      \<lparr>inputActors = None, enableAddingActors = Some (JBool False),
       inputTools = Some (Lst [''__proto__''])\<rparr> = Inl TypeError
   \<and> loadToolsFromInput g
      \<lparr>inputActors = None, enableAddingActors = Some (JBool False),
       inputTools = Some (Lst [''apify/web-scraper''])\<rparr>
      = Inr (composeResult g [] [''apify/web-scraper''])"
  by (simp add: loader_defs)

lemma dedupeByName_subset: "set (dedupeByName seen xs) \<subseteq> set xs"
  by (induction xs arbitrary: seen) auto

lemma dedupeByName_names:
  "toolName ` set (dedupeByName seen xs) = toolName ` set xs - set seen"
  by (induction xs arbitrary: seen) auto

lemma dedupeByName_seen:
  "n \<in> set seen \<Longrightarrow> filter (\<lambda>e. toolName e = n) (dedupeByName seen xs) = []"
  by (induction xs arbitrary: seen) auto

lemma dedupeByName_once:
  "n \<notin> set seen \<Longrightarrow> n \<in> toolName ` set xs \<Longrightarrow>
   length (filter (\<lambda>e. toolName e = n) (dedupeByName seen xs)) = 1"
proof (induction xs arbitrary: seen)
  case Nil
  then show ?case by simp
next
  case (Cons x xs)
  show ?case
  proof (cases "toolName x = n")
    case True
    then show ?thesis using Cons.prems dedupeByName_seen[of n "n # seen" xs] by simp
  next
    case False
    then show ?thesis using Cons by auto
  qed
qed

lemma composeResult_shape:
  "\<exists>result2. composeResult g result1 names =
      dedupeByName [] (if invokesActor result2 then result2 @ [getActorOutput] else result2)"
  unfolding composeResult_def Let_def by blast

lemma loadToolsFromInput_shape:
  "loadToolsFromInput g input = Inr result \<Longrightarrow>
   \<exists>result2. result =
      dedupeByName [] (if invokesActor result2 then result2 @ [getActorOutput] else result2)"
proof -
  assume "loadToolsFromInput g input = Inr result"
  then obtain result1 names where "result = composeResult g result1 names"
    by (auto simp: loadToolsFromInput_def split: sum.splits prod.splits)
  then show ?thesis using composeResult_shape[of g result1 names] by simp
qed

lemma invokesActor_set:
  "invokesActor r = (\<exists>e \<in> set r. toolName e = ''call-actor'' \<or> entryType e = Actor
                                  \<or> toolName e = ''add-actor'')"
  unfolding invokesActor_def Let_def list_ex_iff by blast

lemma getActorOutput_fields:
  "toolName getActorOutput = ''get-actor-output'' \<and> entryType getActorOutput = Internal"
  by (simp add: getActorOutput_def internalTool_def)

text \<open>
  C4. When the list returned by the loader contains the tool \<open>call-actor\<close>, an entry of
  type Actor or the tool \<open>add-actor\<close>, it contains exactly one entry named
  \<open>get-actor-output\<close>, whatever the input and whatever the platform returns for the Actor
  names.
\<close>

theorem output_tool_once:
  "loadToolsFromInput g input = Inr result \<longrightarrow>
   (list_ex (\<lambda>entry. toolName entry = ''call-actor'') result
     \<or> list_ex (\<lambda>entry. entryType entry = Actor) result
     \<or> list_ex (\<lambda>entry. toolName entry = ''add-actor'') result)
   \<longrightarrow> length (filter (\<lambda>entry. toolName entry = ''get-actor-output'') result) = 1"
proof (intro impI)
  assume l: "loadToolsFromInput g input = Inr result"
  assume a: "list_ex (\<lambda>entry. toolName entry = ''call-actor'') result
     \<or> list_ex (\<lambda>entry. entryType entry = Actor) result
     \<or> list_ex (\<lambda>entry. toolName entry = ''add-actor'') result"
  obtain result2 where r: "result =
      dedupeByName [] (if invokesActor result2 then result2 @ [getActorOutput] else result2)"
    using loadToolsFromInput_shape[OF l] by blast
  let ?result3 = "if invokesActor result2 then result2 @ [getActorOutput] else result2"
  from a obtain e where e: "e \<in> set result"
    and p: "toolName e = ''call-actor'' \<or> entryType e = Actor \<or> toolName e = ''add-actor''"
    unfolding list_ex_iff by blast
  from e r have e3: "e \<in> set ?result3" using dedupeByName_subset by fastforce
  have "e \<noteq> getActorOutput" using p getActorOutput_fields by auto
  with e3 have "e \<in> set result2" by (auto split: if_splits)
  with p have "invokesActor result2" unfolding invokesActor_set by blast
  then have "''get-actor-output'' \<in> toolName ` set ?result3"
    using getActorOutput_fields by force
  then show "length (filter (\<lambda>entry. toolName entry = ''get-actor-output'') result) = 1"
    unfolding r by (intro dedupeByName_once) simp_all
qed

theorem output_tool_once_witness:
  "map_sum id (map toolName) (loadToolsFromInput (\<lambda>names. [])
        \<lparr>inputActors = None, enableAddingActors = Some (JBool False),
         inputTools = Some (Lst [''storage'', ''preview''])\<rparr>)
      = Inr [''get-dataset'', ''get-dataset-items'', ''get-dataset-schema'', ''get-actor-output'',
         ''get-key-value-store'', ''get-key-value-store-keys'', ''get-key-value-store-record'',
         ''get-dataset-list'', ''get-key-value-store-list'', ''call-actor'']
   \<and> list_ex (\<lambda>entry. toolName entry = ''call-actor'')
        (projr (loadToolsFromInput (\<lambda>names. [])
           \<lparr>inputActors = None, enableAddingActors = Some (JBool False),
            inputTools = Some (Lst [''storage'', ''preview''])\<rparr>))
   \<and> length (filter (\<lambda>entry. toolName entry = ''get-actor-output'')
        (projr (loadToolsFromInput (\<lambda>names. [])
           \<lparr>inputActors = None, enableAddingActors = Some (JBool False),
            inputTools = Some (Lst [''storage'', ''preview''])\<rparr>))) = 1"
  using output_tool_once[of "\<lambda>names. []"
        "\<lparr>inputActors = None, enableAddingActors = Some (JBool False),
         inputTools = Some (Lst [''storage'', ''preview''])\<rparr>"
        "projr (loadToolsFromInput (\<lambda>names. [])
           \<lparr>inputActors = None, enableAddingActors = Some (JBool False),
            inputTools = Some (Lst [''storage'', ''preview''])\<rparr>)"]
  by (simp add: loader_defs)

lemma loadToolsFromInput_defaults:
  assumes "inputTools input = None" and "inputActors input = None"
    and "enableAddingActors input \<noteq> Some (JBool True)"
  shows "loadToolsFromInput g input =
     Inr (dedupeByName [] (getExpectedToolsByCategories [''actors'', ''docs'']
        @ g [''apify/rag-web-browser''] @ [getActorOutput]))"
proof -
  have i: "internalSelection input [] = getExpectedToolsByCategories [''actors'', ''docs'']"
    using assms
    by (simp add: internalSelection_def Let_def normalizeSelectors_def addActorEnabled_def
        actorsExplicitlyEmpty_def toolCategoriesEnabledByDefault_def)
  have "list_ex (\<lambda>entry. toolName entry = ''call-actor'')
            (getExpectedToolsByCategories [''actors'', ''docs''])"
    by (simp add: getExpectedToolsByCategories_def toolCategoriesTable_def
        callActor_def internalTool_def)
  then have c: "invokesActor (getExpectedToolsByCategories [''actors'', ''docs'']
                  @ g [''apify/rag-web-browser''])"
    by (simp add: invokesActor_def)
  show ?thesis
    using assms c unfolding loader_result_by_priority
    by (simp add: normalizeSelectors_def i actorsFromField_def addActorEnabled_def
        defaultsActors_def composeResult_def)
qed

lemma loadToolsFromInput_explicit_empty:
  assumes "normalizeSelectors (inputTools input) = Some []" and "inputActors input = None"
  shows "loadToolsFromInput g input = Inr []"
  using assms unfolding loader_result_by_priority
  by (simp add: partitionSelectors_def internalSelection_def actorsFromField_def
      composeResult_def invokesActor_def)

section \<open>Properties of the handler: the requested name\<close>

lemma splitOn_no_separator:
  "\<not> strIncludes r sep \<Longrightarrow> splitOn sep cur r = [rev cur @ r]"
proof (induction r arbitrary: cur)
  case Nil
  then show ?case by simp
next
  case (Cons c cs)
  then have "take (length sep) (c # cs) \<noteq> sep" and "\<not> strIncludes cs sep" by auto
  then show ?case using Cons.IH[of "c # cur"] by simp
qed

lemma splitOn_other_step:
  "\<not> (c = CHR ''_'' \<and> (\<exists>cs'. cs = CHR ''_'' # cs')) \<Longrightarrow>
   splitOn ''__'' cur (c # cs) = splitOn ''__'' (c # cur) cs"
  by (cases cs) auto

lemma splitOn_nonempty: "splitOn sep cur s \<noteq> []"
  by (induction sep cur s rule: splitOn.induct) auto

lemma splitOn_last_segment:
  assumes "\<not> strIncludes r ''__''"
  shows "m = [] \<or> last m \<noteq> CHR ''_'' \<Longrightarrow> last (splitOn ''__'' cur (m @ ''__'' @ r)) = r"
proof (induction "length m" arbitrary: m cur rule: less_induct)
  case less
  show ?case
  proof (cases m)
    case Nil
    then show ?thesis using splitOn_no_separator[OF assms, of "[]"] by simp
  next
    case (Cons c1 m1)
    show ?thesis
    proof (cases m1)
      case Nil
      with Cons less.prems have c1: "c1 \<noteq> CHR ''_''" by simp
      have "splitOn ''__'' cur (c1 # ''__'' @ r) = splitOn ''__'' (c1 # cur) (''__'' @ r)"
        using c1 by (intro splitOn_other_step) simp
      then show ?thesis using Cons Nil splitOn_no_separator[OF assms, of "[]"] by simp
    next
      case (Cons c2 m2) note m1 = this
      show ?thesis
      proof (cases "c1 = CHR ''_'' \<and> c2 = CHR ''_''")
        case True
        have e: "m2 = [] \<or> last m2 \<noteq> CHR ''_''"
          using less.prems \<open>m = c1 # m1\<close> m1 True by (cases m2) auto
        have "length m2 < length m" using \<open>m = c1 # m1\<close> m1 by simp
        then have "last (splitOn ''__'' [] (m2 @ ''__'' @ r)) = r"
          using less.hyps[of m2 "[]"] e by simp
        moreover have "splitOn ''__'' [] (m2 @ ''__'' @ r) \<noteq> []"
          by (rule splitOn_nonempty)
        ultimately show ?thesis using \<open>m = c1 # m1\<close> m1 True by simp
      next
        case False
        have e: "m1 = [] \<or> last m1 \<noteq> CHR ''_''"
          using less.prems \<open>m = c1 # m1\<close> m1 by auto
        have "length m1 < length m" using \<open>m = c1 # m1\<close> by simp
        then have ih: "last (splitOn ''__'' (c1 # cur) (m1 @ ''__'' @ r)) = r"
          using less.hyps[of m1 "c1 # cur"] e by simp
        have "splitOn ''__'' cur (c1 # (m1 @ ''__'' @ r)) = splitOn ''__'' (c1 # cur) (m1 @ ''__'' @ r)"
          using False m1 by (intro splitOn_other_step) simp
        then show ?thesis using ih \<open>m = c1 # m1\<close> by simp
      qed
    qed
  qed
qed


lemma normalizeName_local:
  "startsWith name ''local__'' \<Longrightarrow> normalizeName name = last (split name ''__'')"
proof -
  assume a: "startsWith name ''local__''"
  then obtain r where "name = ''local__'' @ r" unfolding startsWith_def take_length_eq by blast
  then have "length (split name ''__'') > 1"
    using splitOn_nonempty[of "''__''" "[]" r] by (simp add: split_def)
  then show ?thesis using a by (simp add: normalizeName_def Let_def)
qed

lemma normalizeName_other:
  "\<not> startsWith name ''local__'' \<Longrightarrow> normalizeName name = name"
  by (simp add: normalizeName_def)

lemma not_includes_not_startsWith_local:
  assumes "\<not> strIncludes r ''__''"
  shows "\<not> startsWith r ''local__''"
proof
  assume "startsWith r ''local__''"
  then obtain t where "r = ''local__'' @ t" unfolding startsWith_def take_length_eq by blast
  then have "strIncludes r ''__''" by simp
  with assms show False by simp
qed

lemma normalizeName_namespaced:
  assumes "\<not> strIncludes realname ''__''" and "middle = [] \<or> last middle \<noteq> CHR ''_''"
  shows "normalizeName (''local__'' @ middle @ ''__'' @ realname) = realname"
proof -
  have s: "startsWith (''local__'' @ middle @ ''__'' @ realname) ''local__''"
    by (simp add: startsWith_def)
  have "split (''local__'' @ middle @ ''__'' @ realname) ''__''
          = ''local'' # splitOn ''__'' [] (middle @ ''__'' @ realname)"
    by (simp add: split_def)
  moreover have "splitOn ''__'' [] (middle @ ''__'' @ realname) \<noteq> []"
    by (rule splitOn_nonempty)
  ultimately have "last (split (''local__'' @ middle @ ''__'' @ realname) ''__'') = realname"
    using splitOn_last_segment[OF assms(1) assms(2), of "[]"] by simp
  then show ?thesis using normalizeName_local[OF s] by simp
qed

lemma callToolHandler_name:
  "normalizeName (reqName r1) = normalizeName (reqName r2) \<Longrightarrow>
   reqArguments r1 = reqArguments r2 \<Longrightarrow> reqProgressToken r1 = reqProgressToken r2 \<Longrightarrow>
   reqApifyToken r1 = reqApifyToken r2 \<Longrightarrow>
   callToolHandler s w r1 signal = callToolHandler s w r2 signal"
  by (simp add: callToolHandler_def Let_def
      cong del: option.case_cong_weak prod.case_cong_weak sum.case_cong_weak if_weak_cong)

text \<open>The definitions that evaluate the handler on the concrete session.\<close>

lemmas handler_defs = callToolHandler_def dispatchTool_def callActorGetDataset_def raceAbort_def
  callActorFailed_def invalidParams_def findTool_def normalizeName_def startsWith_def split_def
  truthy_def orElse_def listToolNames_def decodeDotPropertyNames_def decodeDotKey_def
  demoServer_def demoWorld_def demoRun_def demoRequest_def internalTool_def actorToolEntry_def
  actorNameToToolName_def ACTOR_MAX_MEMORY_MBYTES_def Let_def

text \<open>
  C6, as stated, fails: a name with a namespace prefix other than \<open>local\<close> is not
  stripped. On the concrete session the call for \<open>ns__x__my-tool\<close> finds no tool, while
  the call for \<open>my-tool\<close> runs the tool.
\<close>

theorem prefix_stripping_counterexample:
  "callToolHandler demoServer demoWorld (demoRequest ''ns__x__my-tool'') NotAborted
     = ([LogError ''Tool ns__x__my-tool not found. Available tools: my-tool, apify-slash-rag-web-browser'',
         SendLoggingMessage ''error''
           ''Tool ns__x__my-tool not found. Available tools: my-tool, apify-slash-rag-web-browser''],
        Inl (McpError InvalidParams
           ''Tool ns__x__my-tool not found. Available tools: my-tool, apify-slash-rag-web-browser''))
   \<and> callToolHandler demoServer demoWorld (demoRequest ''my-tool'') NotAborted
     = ([LogInfo ''Calling internal tool'', InternalCall ''my-tool''],
        Inr (Response (Some [TextContent ''done''])))"
  by (simp add: handler_defs)

text \<open>
  C6, amended. A requested name \<open>local__middle__realname\<close>, where \<open>realname\<close> contains
  no \<open>__\<close> and \<open>middle\<close> does not end in an underscore, is stripped to \<open>realname\<close>, and
  the call has the outcome of the call for \<open>realname\<close>. In general a name that starts
  with \<open>local__\<close> is replaced by the last part of its split at \<open>__\<close>, and any other
  name is left as it is.
\<close>

theorem prefix_stripping_local:
  "(\<not> strIncludes realname ''__'' \<and> (middle = [] \<or> last middle \<noteq> CHR ''_'') \<longrightarrow>
      normalizeName (''local__'' @ middle @ ''__'' @ realname) = realname
      \<and> callToolHandler s w (request\<lparr>reqName := ''local__'' @ middle @ ''__'' @ realname\<rparr>) signal
          = callToolHandler s w (request\<lparr>reqName := realname\<rparr>) signal)
   \<and> (startsWith name ''local__'' \<longrightarrow> normalizeName name = last (split name ''__''))
   \<and> (\<not> startsWith name ''local__'' \<longrightarrow> normalizeName name = name)"
proof -
  have "\<not> strIncludes realname ''__'' \<and> (middle = [] \<or> last middle \<noteq> CHR ''_'') \<longrightarrow>
      normalizeName (''local__'' @ middle @ ''__'' @ realname) = realname
      \<and> callToolHandler s w (request\<lparr>reqName := ''local__'' @ middle @ ''__'' @ realname\<rparr>) signal
          = callToolHandler s w (request\<lparr>reqName := realname\<rparr>) signal"
  proof
    assume a: "\<not> strIncludes realname ''__'' \<and> (middle = [] \<or> last middle \<noteq> CHR ''_'')"
    then have n: "normalizeName (''local__'' @ middle @ ''__'' @ realname) = realname"
      using normalizeName_namespaced[of realname middle] by blast
    have r: "normalizeName realname = realname"
      using a not_includes_not_startsWith_local[of realname] normalizeName_other[of realname]
      by blast
    have "callToolHandler s w (request\<lparr>reqName := ''local__'' @ middle @ ''__'' @ realname\<rparr>) signal
          = callToolHandler s w (request\<lparr>reqName := realname\<rparr>) signal"
      by (rule callToolHandler_name) (use n r in simp_all)
    with n show "normalizeName (''local__'' @ middle @ ''__'' @ realname) = realname
      \<and> callToolHandler s w (request\<lparr>reqName := ''local__'' @ middle @ ''__'' @ realname\<rparr>) signal
          = callToolHandler s w (request\<lparr>reqName := realname\<rparr>) signal" by blast
  qed
  then show ?thesis using normalizeName_local[of name] normalizeName_other[of name] by blast
qed

theorem prefix_stripping_local_witness:
  "\<not> strIncludes ''my-tool'' ''__'' \<and> last ''ns'' \<noteq> CHR ''_''
   \<and> normalizeName ''local__ns__my-tool'' = ''my-tool''
   \<and> callToolHandler demoServer demoWorld (demoRequest ''local__ns__my-tool'') NotAborted
       = callToolHandler demoServer demoWorld (demoRequest ''my-tool'') NotAborted
   \<and> startsWith ''local__ns__my-tool'' ''local__''
   \<and> \<not> startsWith ''my-tool'' ''local__''"
  using prefix_stripping_local[of "''my-tool''" "''ns''" demoServer demoWorld
      "demoRequest ''my-tool''" NotAborted "''local__ns__my-tool''"]
  by (simp add: demoRequest_def startsWith_def)

section \<open>Properties of the encoding of property names\<close>

lemma encodeDotKey_Cons:
  "encodeDotKey (c # cs) = (if c = CHR ''.'' then ''-dot-'' else [c]) @ encodeDotKey cs"
  by (simp add: encodeDotKey_def)

lemma encodeDotKey_Nil: "encodeDotKey [] = []"
  by (simp add: encodeDotKey_def)

text \<open>
  The encoded name starts with \<open>dot-\<close> exactly when the name starts with \<open>dot-\<close> or with
  \<open>dot.\<close>.
\<close>

lemma encodeDotKey_dot_prefix:
  assumes "encodeDotKey cs = ''dot-'' @ r"
  shows "(\<exists>t. cs = ''dot-'' @ t) \<or> (\<exists>t. cs = ''dot.'' @ t)"
proof -
  from assms obtain c1 cs1 where 1: "cs = c1 # cs1" by (cases cs) (auto simp: encodeDotKey_Nil)
  with assms have c1: "c1 = CHR ''d''" and e1: "encodeDotKey cs1 = ''ot-'' @ r"
    by (auto simp: encodeDotKey_Cons split: if_splits)
  from e1 obtain c2 cs2 where 2: "cs1 = c2 # cs2" by (cases cs1) (auto simp: encodeDotKey_Nil)
  with e1 have c2: "c2 = CHR ''o''" and e2: "encodeDotKey cs2 = ''t-'' @ r"
    by (auto simp: encodeDotKey_Cons split: if_splits)
  from e2 obtain c3 cs3 where 3: "cs2 = c3 # cs3" by (cases cs2) (auto simp: encodeDotKey_Nil)
  with e2 have c3: "c3 = CHR ''t''" and e3: "encodeDotKey cs3 = ''-'' @ r"
    by (auto simp: encodeDotKey_Cons split: if_splits)
  from e3 obtain c4 cs4 where 4: "cs3 = c4 # cs4" by (cases cs3) (auto simp: encodeDotKey_Nil)
  with e3 have c4: "c4 = CHR ''-'' \<or> c4 = CHR ''.''"
    by (auto simp: encodeDotKey_Cons split: if_splits)
  show ?thesis using 1 2 3 4 c1 c2 c3 c4 by auto
qed

lemma encodeDotKey_dot_prefix_conv:
  "(\<exists>t. cs = ''dot-'' @ t) \<or> (\<exists>t. cs = ''dot.'' @ t) \<Longrightarrow> \<exists>r. encodeDotKey cs = ''dot-'' @ r"
  by (auto simp: encodeDotKey_Cons)

lemma decodeDotKey_no_match:
  "\<not> (\<exists>r. c # cs = ''-dot-'' @ r) \<Longrightarrow> decodeDotKey (c # cs) = c # decodeDotKey cs"
  unfolding decodeDotKey_def
  by (subst replaceAll.simps) (simp only: take_length_eq if_False simp_thms)

lemma decodeDotKey_match: "decodeDotKey (''-dot-'' @ r) = CHR ''.'' # decodeDotKey r"
  by (simp add: decodeDotKey_def)

text \<open>
  One step of the round trip. A name that starts with \<open>-dot-\<close> or \<open>-dot.\<close> comes back
  with a dot in the place of its first character; of any other name the first character
  comes back and the round trip goes on with the rest.
\<close>

lemma placeholderPrefix_iff:
  "placeholderPrefix s = ((\<exists>t. s = ''-dot-'' @ t) \<or> (\<exists>t. s = ''-dot.'' @ t))"
  unfolding placeholderPrefix_def startsWith_def take_length_eq ..

lemma decode_encode_placeholder_prefix:
  assumes "placeholderPrefix (c # cs)"
  shows "\<exists>r. decodeDotKey (encodeDotKey (c # cs)) = CHR ''.'' # r" and "c = CHR ''-''"
proof -
  from assms show c: "c = CHR ''-''" by (auto simp: placeholderPrefix_iff)
  from assms have "(\<exists>t. cs = ''dot-'' @ t) \<or> (\<exists>t. cs = ''dot.'' @ t)"
    by (auto simp: placeholderPrefix_iff)
  then obtain r where "encodeDotKey cs = ''dot-'' @ r"
    using encodeDotKey_dot_prefix_conv by blast
  then have "encodeDotKey (c # cs) = ''-dot-'' @ r" using c by (simp add: encodeDotKey_Cons)
  then show "\<exists>r. decodeDotKey (encodeDotKey (c # cs)) = CHR ''.'' # r"
    using decodeDotKey_match[of r] by simp
qed

lemma decode_encode_other_prefix:
  assumes "\<not> placeholderPrefix (c # cs)"
  shows "decodeDotKey (encodeDotKey (c # cs)) = c # decodeDotKey (encodeDotKey cs)"
proof (cases "c = CHR ''.''")
  case True
  then show ?thesis using decodeDotKey_match[of "encodeDotKey cs"] by (simp add: encodeDotKey_Cons)
next
  case False
  have "\<not> (\<exists>r. c # encodeDotKey cs = ''-dot-'' @ r)"
  proof
    assume "\<exists>r. c # encodeDotKey cs = ''-dot-'' @ r"
    then obtain r where c: "c = CHR ''-''" and "encodeDotKey cs = ''dot-'' @ r" by auto
    then have "(\<exists>t. cs = ''dot-'' @ t) \<or> (\<exists>t. cs = ''dot.'' @ t)"
      using encodeDotKey_dot_prefix by blast
    with c assms show False by (auto simp: placeholderPrefix_iff)
  qed
  then show ?thesis using False by (simp add: encodeDotKey_Cons decodeDotKey_no_match)
qed

lemma strIncludes_placeholder:
  "(strIncludes (c # cs) ''-dot-'' \<or> strIncludes (c # cs) ''-dot.'')
     = (placeholderPrefix (c # cs) \<or> strIncludes cs ''-dot-'' \<or> strIncludes cs ''-dot.'')"
  unfolding strIncludes_Cons placeholderPrefix_iff by blast

lemma decode_encode_key_iff:
  "(decodeDotKey (encodeDotKey name) = name)
     = (\<not> strIncludes name ''-dot-'' \<and> \<not> strIncludes name ''-dot.'')"
proof (induction name)
  case Nil
  then show ?case by (simp add: encodeDotKey_Nil decodeDotKey_def)
next
  case (Cons c cs)
  show ?case
  proof (cases "placeholderPrefix (c # cs)")
    case True
    then have "decodeDotKey (encodeDotKey (c # cs)) \<noteq> c # cs"
      using decode_encode_placeholder_prefix[OF True] by auto
    moreover have "strIncludes (c # cs) ''-dot-'' \<or> strIncludes (c # cs) ''-dot.''"
      using True strIncludes_placeholder[of c cs] by blast
    ultimately show ?thesis by blast
  next
    case False
    then have "(decodeDotKey (encodeDotKey (c # cs)) = c # cs)
                 = (decodeDotKey (encodeDotKey cs) = cs)"
      using decode_encode_other_prefix[OF False] by simp
    then show ?thesis using Cons.IH False strIncludes_placeholder[of c cs] by blast
  qed
qed

text \<open>
  C3, as stated, fails: the name \<open>a-dot-b.c\<close> contains a dot, and encoding then
  decoding it yields \<open>a.b.c\<close>.
\<close>

theorem dot_roundtrip_counterexample:
  "strIncludes ''a-dot-b.c'' ''.''
   \<and> encodeDotKey ''a-dot-b.c'' = ''a-dot-b-dot-c''
   \<and> decodeDotKey (encodeDotKey ''a-dot-b.c'') = ''a.b.c''
   \<and> decodeDotKey (encodeDotKey ''a-dot-b.c'') \<noteq> ''a-dot-b.c''"
  by (simp add: encodeDotKey_def decodeDotKey_def)

lemma handler_validates_decoded:
  assumes "truthy (orElse (reqApifyToken request) (envApifyToken w))"
    and "findTool s (normalizeName (reqName request)) = Some tool"
    and "reqArguments request = Some rawArgs"
  shows "(\<not> ajvValidate w tool (decodeDotPropertyNames rawArgs) \<longrightarrow>
            callToolHandler s w request signal
              = invalidParams (''Invalid arguments for tool '' @ toolName tool))
         \<and> (ajvValidate w tool (decodeDotPropertyNames rawArgs)
            \<and> dispatchTool w tool (decodeDotPropertyNames rawArgs) (reqProgressToken request) signal
                 = (effects, Inr res) \<longrightarrow>
            callToolHandler s w request signal = (effects, Inr res))"
  using assms by (simp add: callToolHandler_def Let_def)

text \<open>
  C3, amended. Encoding a property name and then decoding it yields the name exactly
  when the name contains neither \<open>-dot-\<close> nor \<open>-dot.\<close>: for every name that contains
  neither, with or without dots, the round trip is the identity, and for a name that
  contains one of them it is not. The property \<open>a.b.c\<close> is exported as
  \<open>a-dot-b-dot-c\<close>, and an argument object keyed \<open>a-dot-b-dot-c\<close> is decoded to the key
  \<open>a.b.c\<close>. The handler validates the decoded arguments: when they fail the
  validator of the resolved tool the call is refused with InvalidParams, and when they
  pass, the tool is called with the decoded arguments.
\<close>

theorem dot_roundtrip_exactly_without_placeholder:
  "(decodeDotKey (encodeDotKey name) = name)
     = (\<not> strIncludes name ''-dot-'' \<and> \<not> strIncludes name ''-dot.'')
   \<and> encodeDotPropertyNames [(''a.b.c'', p)] = [(''a-dot-b-dot-c'', p)]
   \<and> decodeDotPropertyNames [(''a-dot-b-dot-c'', v)] = [(''a.b.c'', v)]
   \<and> (truthy (orElse (reqApifyToken request) (envApifyToken w))
        \<and> findTool s (normalizeName (reqName request)) = Some tool
        \<and> reqArguments request = Some rawArgs \<longrightarrow>
        (\<not> ajvValidate w tool (decodeDotPropertyNames rawArgs) \<longrightarrow>
            callToolHandler s w request signal
              = invalidParams (''Invalid arguments for tool '' @ toolName tool))
         \<and> (ajvValidate w tool (decodeDotPropertyNames rawArgs)
            \<and> dispatchTool w tool (decodeDotPropertyNames rawArgs) (reqProgressToken request) signal
                 = (effects, Inr res) \<longrightarrow>
            callToolHandler s w request signal = (effects, Inr res)))"
proof -
  have a: "(decodeDotKey (encodeDotKey name) = name)
     = (\<not> strIncludes name ''-dot-'' \<and> \<not> strIncludes name ''-dot.'')"
    by (rule decode_encode_key_iff)
  have b: "encodeDotPropertyNames [(''a.b.c'', p)] = [(''a-dot-b-dot-c'', p)]"
    by (simp add: encodeDotPropertyNames_def encodeDotKey_def)
  have c: "decodeDotPropertyNames [(''a-dot-b-dot-c'', v)] = [(''a.b.c'', v)]"
    by (simp add: decodeDotPropertyNames_def decodeDotKey_def)
  show ?thesis using a b c handler_validates_decoded[of request w s tool rawArgs signal effects res]
    by blast
qed

theorem dot_roundtrip_exactly_without_placeholder_witness:
  "\<not> strIncludes ''a.b.c'' ''-dot-'' \<and> \<not> strIncludes ''a.b.c'' ''-dot.''
   \<and> encodeDotKey ''a.b.c'' = ''a-dot-b-dot-c''
   \<and> decodeDotKey (encodeDotKey ''a.b.c'') = ''a.b.c''
   \<and> decodeDotKey (encodeDotKey ''max-dots.per.line'') = ''max-dots.per.line''
   \<and> strIncludes ''a-dot.b'' ''-dot.''
   \<and> decodeDotKey (encodeDotKey ''a-dot.b'') = ''a.dot-b''
   \<and> truthy (orElse (reqApifyToken (demoRequest ''my-tool'')) (envApifyToken demoWorld))
   \<and> findTool demoServer (normalizeName (reqName (demoRequest ''my-tool'')))
        = Some (internalTool ''my-tool'')
   \<and> \<not> ajvValidate (demoWorld\<lparr>ajvValidate := (\<lambda>tool args. map fst args = [''a.b.c''])\<rparr>)
          (internalTool ''my-tool'') (decodeDotPropertyNames [(''query'', ''restaurants'')])
   \<and> callToolHandler demoServer
        (demoWorld\<lparr>ajvValidate := (\<lambda>tool args. map fst args = [''a.b.c''])\<rparr>)
        (demoRequest ''my-tool'') NotAborted
       = invalidParams ''Invalid arguments for tool my-tool''
   \<and> ajvValidate (demoWorld\<lparr>ajvValidate := (\<lambda>tool args. map fst args = [''a.b.c''])\<rparr>)
          (internalTool ''my-tool'') (decodeDotPropertyNames [(''a-dot-b-dot-c'', ''1'')])
   \<and> callToolHandler demoServer
        (demoWorld\<lparr>ajvValidate := (\<lambda>tool args. map fst args = [''a.b.c''])\<rparr>)
        ((demoRequest ''my-tool'')\<lparr>reqArguments := Some [(''a-dot-b-dot-c'', ''1'')]\<rparr>) NotAborted
       = ([LogInfo ''Calling internal tool'', InternalCall ''my-tool''],
          Inr (Response (Some [TextContent ''done''])))"
  using dot_roundtrip_exactly_without_placeholder[of "''a.b.c''" "()" "()" "demoRequest ''my-tool''"
      "demoWorld\<lparr>ajvValidate := (\<lambda>tool args. map fst args = [''a.b.c''])\<rparr>" demoServer
      "internalTool ''my-tool''" "[(''query'', ''restaurants'')]" NotAborted "[]" "Response None"]
  by (simp add: handler_defs encodeDotKey_def)

section \<open>Properties of the handler: errors and cancellation\<close>

lemma handler_catch:
  assumes "truthy (orElse (reqApifyToken request) (envApifyToken w))"
    and "findTool s (normalizeName (reqName request)) = Some tool"
    and "reqArguments request = Some rawArgs"
    and "ajvValidate w tool (decodeDotPropertyNames rawArgs)"
  shows "(dispatchTool w tool (decodeDotPropertyNames rawArgs) (reqProgressToken request) signal
            = (effects, Inl (ApifyApiError message)) \<longrightarrow>
          snd (callToolHandler s w request signal)
            = Inr (Response (Some [TextContent (''Apify API error calling tool ''
                    @ normalizeName (reqName request) @ '': '' @ message)])))
       \<and> (dispatchTool w tool (decodeDotPropertyNames rawArgs) (reqProgressToken request) signal
            = (effects, Inl (OtherError rendering)) \<longrightarrow>
          snd (callToolHandler s w request signal)
            = Inl (McpError InternalError ''An error occurred while calling the tool.''))"
  using assms by (simp add: callToolHandler_def Let_def)

lemma callActorGetDataset_wraps:
  "snd (callActorGetDataset rw actorName memory tracker abortSignal) \<noteq> Inl (ApifyApiError m)"
  by (auto simp: callActorGetDataset_def callActorFailed_def Let_def
      split: sum.splits prod.splits RaceResult.splits)

lemma actor_tool_error_is_wrapped:
  assumes "entryType tool = Actor"
  shows "snd (dispatchTool w tool args progressToken signal) \<noteq> Inl (ApifyApiError m)"
proof -
  obtain effects callResult where c:
    "callActorGetDataset (actorRun w) (case actorFullName tool of Some n \<Rightarrow> n | None \<Rightarrow> [])
       (memoryMbytes tool) (truthy progressToken) (Some signal) = (effects, callResult)"
    by (cases "callActorGetDataset (actorRun w)
       (case actorFullName tool of Some n \<Rightarrow> n | None \<Rightarrow> [])
       (memoryMbytes tool) (truthy progressToken) (Some signal)") blast
  then have "callResult \<noteq> Inl (ApifyApiError m)"
    using callActorGetDataset_wraps[of "actorRun w"
        "case actorFullName tool of Some n \<Rightarrow> n | None \<Rightarrow> []" "memoryMbytes tool"
        "truthy progressToken" "Some signal" m] by simp
  then show ?thesis using assms c
    by (auto simp: dispatchTool_def Let_def split: sum.splits option.splits)
qed

lemma raceAbort_before_listening:
  "raceAbort rw actorRunId (Some AbortedBeforeListening)
     = ([RunWaitForFinish actorRunId], Settled (waitOutcome rw))"
  by (simp add: raceAbort_def)

lemma raceAbort_not_aborted:
  "raceAbort rw actorRunId (Some NotAborted)
     = ([RunWaitForFinish actorRunId], Settled (waitOutcome rw))"
  by (simp add: raceAbort_def)

lemma cancel_before_listening_is_ignored:
  "callActorGetDataset rw actorName memory tracker (Some AbortedBeforeListening)
     = callActorGetDataset rw actorName memory tracker (Some NotAborted)"
  unfolding callActorGetDataset_def raceAbort_before_listening raceAbort_not_aborted ..

lemma cancel_while_waiting_aborts:
  assumes "startOutcome rw = Inr actorRunId" and "\<not> waitSettlesDuringAbort rw"
  shows "snd (callActorGetDataset rw actorName memory tracker (Some AbortedWhileWaiting)) = Inr None
     \<and> RunAbort actorRunId False
          \<in> set (fst (callActorGetDataset rw actorName memory tracker (Some AbortedWhileWaiting)))"
  using assms by (simp add: callActorGetDataset_def raceAbort_def Let_def)

lemma cancel_while_waiting_no_reply:
  assumes "entryType tool = Actor" and "startOutcome (actorRun w) = Inr actorRunId"
    and "\<not> waitSettlesDuringAbort (actorRun w)"
  shows "snd (dispatchTool w tool args progressToken AbortedWhileWaiting) = Inr (Response None)
     \<and> RunAbort actorRunId False
          \<in> set (fst (dispatchTool w tool args progressToken AbortedWhileWaiting))"
  using assms by (simp add: dispatchTool_def callActorGetDataset_def raceAbort_def Let_def)

text \<open>
  C1. A call of an Actor tool whose signal has fired before the listener is added:
  the run is started and never aborted, the call waits for the run to finish and the
  handler returns the content of the result. The claim asks for an abort of the run and
  for no response whenever the signal fires before the run completes; the source does
  this when the signal fires while the call waits (\<open>cancel_while_waiting_no_reply\<close>).
\<close>

theorem cancel_before_listening_runs_to_completion:
  "callToolHandler demoServer demoWorld (demoRequest ''apify-slash-rag-web-browser'')
      AbortedBeforeListening
     = ([LogInfo ''Calling Actor'', ActorStart ''apify/rag-web-browser'' (Some 4096),
         RunWaitForFinish ''run-1''],
        Inr (Response (Some [TextContent ''preview'',
                             TextContent ''Actor apify/rag-web-browser''])))"
  by (simp add: handler_defs)

text \<open>
  C5. A call of an Actor tool during which the platform throws an \<open>ApifyApiError\<close>:
  \<open>callActorGetDataset\<close> rethrows it as a plain error, and the handler answers with
  the generic InternalError instead of a textual response. The same error thrown by an
  internal tool reaches the handler as it is and becomes a textual response
  (\<open>handler_catch\<close> is the conversion in general).
\<close>

theorem actor_api_error_becomes_internal_error:
  "callToolHandler demoServer
      (demoWorld\<lparr>actorRun := demoRun\<lparr>startOutcome := Inl (ApifyApiError ''Actor not found'')\<rparr>\<rparr>)
      (demoRequest ''apify-slash-rag-web-browser'') NotAborted
     = ([LogInfo ''Calling Actor'', ActorStart ''apify/rag-web-browser'' (Some 4096),
         LogError ''Error calling Actor'', LogError ''Error calling tool''],
        Inl (McpError InternalError ''An error occurred while calling the tool.''))
   \<and> callToolHandler demoServer
      (demoWorld\<lparr>internalCall := (\<lambda>tool args. Inl (ApifyApiError ''Dataset not found''))\<rparr>)
      (demoRequest ''my-tool'') NotAborted
     = ([LogInfo ''Calling internal tool'', InternalCall ''my-tool'',
         LogError ''Apify API error calling tool''],
        Inr (Response (Some [TextContent
           ''Apify API error calling tool my-tool: Dataset not found''])))"
  by (simp add: handler_defs)

end
